theory Spec2Isabelle
  imports Complex_Main "HOL-Library.Sublist" "HOL-Library.Log_Nat"
begin

section \<open>PowerShell primitives used by the audit scripts\<close>

text \<open>
  Strings are ASCII text (container names, capability names, Dockerfile text, image
  references).  PowerShell compares strings without regard to case in \<^verbatim>\<open>-eq\<close>,
  \<^verbatim>\<open>-contains\<close>, \<^verbatim>\<open>-notcontains\<close> and \<^verbatim>\<open>-match\<close>; every such comparison in
  the scripts has an ASCII literal on one side, so folding the letters A to Z is enough.
\<close>

definition to_lower :: "char \<Rightarrow> char" where
  "to_lower c = (let n = (of_char c :: nat) in if 65 \<le> n \<and> n \<le> 90 then char_of (n + 32) else c)"

definition ps_eq :: "string \<Rightarrow> string \<Rightarrow> bool" where
  \<comment> \<open>\<^verbatim>\<open>$a -eq $b\<close> on strings\<close>
  "ps_eq a b = (map to_lower a = map to_lower b)"

definition ps_contains :: "string list \<Rightarrow> string \<Rightarrow> bool" where
  \<comment> \<open>\<^verbatim>\<open>$xs -contains $v\<close>; on \<^verbatim>\<open>$null\<close> (the empty list here) it is false\<close>
  "ps_contains xs v = list_ex (\<lambda>x. ps_eq x v) xs"

definition is_space :: "char \<Rightarrow> bool" where
  \<comment> \<open>the ASCII members of the regex class \<^verbatim>\<open>\s\<close>: tab, LF, VT, FF, CR, space\<close>
  "is_space c = (let n = (of_char c :: nat) in (9 \<le> n \<and> n \<le> 13) \<or> n = 32)"

definition ps_truthy :: "string \<Rightarrow> bool" where
  \<comment> \<open>a string is true in a condition unless it is empty (or \<^verbatim>\<open>$null\<close>)\<close>
  "ps_truthy s = (s \<noteq> [])"

fun ps_truthy_list :: "string list \<Rightarrow> bool" where
  \<comment> \<open>an array is false when empty, takes the truth value of its element when it has
      one element, and is true otherwise\<close>
  "ps_truthy_list [] = False"
| "ps_truthy_list [x] = ps_truthy x"
| "ps_truthy_list (x # y # zs) = True"

fun ps_join :: "string \<Rightarrow> string list \<Rightarrow> string" where
  \<comment> \<open>\<^verbatim>\<open>$xs -join $sep\<close>\<close>
  "ps_join sep [] = []"
| "ps_join sep [x] = x"
| "ps_join sep (x # y # zs) = x @ sep @ ps_join sep (y # zs)"

fun show_nat :: "nat \<Rightarrow> string" where
  \<comment> \<open>a non-negative integer interpolated into a string\<close>
  "show_nat n = (if n < 10 then [char_of (48 + n)]
                 else show_nat (n div 10) @ [char_of (48 + n mod 10)])"

declare show_nat.simps [simp del]

definition round_half_even :: "rat \<Rightarrow> int" where
  \<comment> \<open>\<^verbatim>\<open>[math]::Round(x)\<close>: to the nearest integer, a midpoint to the even neighbour\<close>
  "round_half_even x =
     (let f = \<lfloor>x\<rfloor>; d = x - of_int f
      in if d < 1 / 2 then f else if 1 / 2 < d then f + 1 else if even f then f else f + 1)"

text \<open>
  The scripts compute on binary64 doubles.  A double is modelled by the rational number it
  denotes, and every arithmetic operation of a script by the exact operation followed by
  \<open>fl\<close>, the rounding to the nearest double with ties to the even significand.  When
  the magnitude of \<open>x\<close> lies between the powers of two with exponents \<open>e\<close> and
  \<open>e + 1\<close>, the doubles near \<open>x\<close> are the multiples of the power of two with exponent
  \<open>e - 52\<close>.  Overflow and subnormal numbers do not occur for the magnitudes of the
  scripts (counts, percentages, sizes in megabytes) and are not modelled.
\<close>

definition ilog2 :: "rat \<Rightarrow> int" where
  \<comment> \<open>for positive \<open>x\<close>, the exponent \<open>e\<close> with \<open>2 powi e \<le> x < 2 powi (e + 1)\<close>\<close>
  "ilog2 x = (if 1 \<le> x then bitlen \<lfloor>x\<rfloor> - 1 else - bitlen (\<lceil>1 / x\<rceil> - 1))"

definition fl :: "rat \<Rightarrow> rat" where
  "fl x = (if x = 0 then 0
           else (let e = ilog2 \<bar>x\<bar> - 52
                 in of_int (round_half_even (x / 2 powi e)) * 2 powi e))"

definition round_scaled :: "rat \<Rightarrow> nat \<Rightarrow> int" where
  \<comment> \<open>the integer that \<^verbatim>\<open>[math]::Round(x, digits)\<close> reaches before it divides again\<close>
  "round_scaled x digits = round_half_even (fl (x * 10 ^ digits))"

definition ps_round :: "rat \<Rightarrow> nat \<Rightarrow> rat" where
  \<comment> \<open>\<^verbatim>\<open>[math]::Round(x, digits)\<close> on a double: the runtime multiplies by the power of
      ten, rounds to an integer and divides by the power of ten, each step on doubles; a
      value of magnitude \<open>10 ^ 16\<close> or more is returned as it is.  The result is the double
      nearest to a decimal with \<open>digits\<close> decimals, and is printed as that decimal.\<close>
  "ps_round x digits =
     (if \<bar>x\<bar> < 10 ^ 16 then fl (of_int (round_scaled x digits) / 10 ^ digits) else x)"

definition trim :: "string \<Rightarrow> string" where
  \<comment> \<open>\<^verbatim>\<open>.Trim()\<close>\<close>
  "trim s = rev (dropWhile is_space (rev (dropWhile is_space s)))"

subsection \<open>The regular expressions of the scripts\<close>

text \<open>
  The patterns of the scripts are sequences of single characters, character classes under
  a greedy star or plus, anchors, and at most one captured group of the form class-plus.
  \<open>rx\<close> is the backtracking matcher at one start position: it returns the text of the
  captured group and the rest of the input after the match.  The argument \<open>prev\<close> is
  the character before the current position, \<open>None\<close> at the start of the text.
\<close>

datatype rx_item =
    Sos                            \<comment> \<open>\<^verbatim>\<open>^\<close> without the multiline option\<close>
  | Bol                            \<comment> \<open>\<^verbatim>\<open>^\<close> under \<^verbatim>\<open>(?m)\<close>: start of text or just after LF\<close>
  | Ch "char \<Rightarrow> bool"              \<comment> \<open>one character of a class\<close>
  | Star "char \<Rightarrow> bool"            \<comment> \<open>greedy \<^verbatim>\<open>*\<close> over a class\<close>
  | CapPlus "char \<Rightarrow> bool"         \<comment> \<open>captured group \<^verbatim>\<open>(class+)\<close>\<close>
  | CapRest "char \<Rightarrow> bool" string  \<comment> \<open>the same group after its first characters\<close>

definition with_capture :: "string \<Rightarrow> (string \<times> string) option \<Rightarrow> (string \<times> string) option" where
  "with_capture cap r = (case r of None \<Rightarrow> None | Some (_, rest) \<Rightarrow> Some (cap, rest))"

fun rx :: "rx_item list \<Rightarrow> char option \<Rightarrow> string \<Rightarrow> (string \<times> string) option" where
  "rx [] prev s = Some ([], s)"
| "rx (Sos # is) prev s = (if prev = None then rx is prev s else None)"
| "rx (Bol # is) prev s =
     (if prev = None \<or> prev = Some (CHR 0x0A) then rx is prev s else None)"
| "rx (Ch p # is) prev [] = None"
| "rx (Ch p # is) prev (c # cs) = (if p c then rx is (Some c) cs else None)"
| "rx (Star p # is) prev [] = rx is prev []"
| "rx (Star p # is) prev (c # cs) =
     (if p c then (case rx (Star p # is) (Some c) cs of
                     Some r \<Rightarrow> Some r
                   | None \<Rightarrow> rx is prev (c # cs))
      else rx is prev (c # cs))"
| "rx (CapPlus p # is) prev [] = None"
| "rx (CapPlus p # is) prev (c # cs) =
     (if p c then rx (CapRest p [c] # is) (Some c) cs else None)"
| "rx (CapRest p acc # is) prev [] = with_capture acc (rx is prev [])"
| "rx (CapRest p acc # is) prev (c # cs) =
     (if p c then (case rx (CapRest p (acc @ [c]) # is) (Some c) cs of
                     Some r \<Rightarrow> Some r
                   | None \<Rightarrow> with_capture acc (rx is prev (c # cs)))
      else with_capture acc (rx is prev (c # cs)))"

definition lit :: "string \<Rightarrow> rx_item list" where
  \<comment> \<open>literal text, compared exactly\<close>
  "lit w = map (\<lambda>c. Ch (\<lambda>x. x = c)) w"

definition lit_ci :: "string \<Rightarrow> rx_item list" where
  \<comment> \<open>literal text under the ignore-case option\<close>
  "lit_ci w = map (\<lambda>c. Ch (\<lambda>x. to_lower x = to_lower c)) w"

definition plus :: "(char \<Rightarrow> bool) \<Rightarrow> rx_item list" where
  "plus p = [Ch p, Star p]"

fun rx_search :: "rx_item list \<Rightarrow> char option \<Rightarrow> string \<Rightarrow> bool" where
  \<comment> \<open>is there a match starting at some position\<close>
  "rx_search pat prev [] = (rx pat prev [] \<noteq> None)"
| "rx_search pat prev (c # cs) = (rx pat prev (c # cs) \<noteq> None \<or> rx_search pat (Some c) cs)"

function rx_matches :: "rx_item list \<Rightarrow> char option \<Rightarrow> string \<Rightarrow> string list" where
  \<comment> \<open>\<^verbatim>\<open>[regex]::Matches\<close>: the successive non-overlapping matches from left to right,
      each represented by the text of its captured group\<close>
  "rx_matches pat prev s =
     (case rx pat prev s of
        Some (cap, rest) \<Rightarrow>
          if length rest < length s
          then cap # rx_matches pat (Some (s ! (length s - length rest - 1))) rest
          else (case s of [] \<Rightarrow> [cap] | c # cs \<Rightarrow> cap # rx_matches pat (Some c) cs)
      | None \<Rightarrow> (case s of [] \<Rightarrow> [] | c # cs \<Rightarrow> rx_matches pat (Some c) cs))"
  by pat_completeness auto
termination
  by (relation "measure (\<lambda>(pat, prev, s). length s)") auto

declare rx_matches.simps [simp del]

definition ps_match :: "string \<Rightarrow> string \<Rightarrow> bool" where
  \<comment> \<open>\<^verbatim>\<open>$s -match $word\<close> for a pattern made of letters only: the word occurs in \<open>s\<close>,
      letter case ignored\<close>
  "ps_match s word = rx_search (lit_ci word) None s"

definition ps_match_any :: "string \<Rightarrow> string list \<Rightarrow> bool" where
  \<comment> \<open>\<^verbatim>\<open>$s -match '(w1|w2|...)'\<close>\<close>
  "ps_match_any s words = list_ex (ps_match s) words"

section \<open>The accumulator of a category runner\<close>

text \<open>
  Every category runner (security, environment, multi-stage, orchestration, API) keeps
  the script-wide hashtable \<^verbatim>\<open>$Script:TestResults\<close> and changes it only in
  \<^verbatim>\<open>Add-TestResult\<close>, whose text is the same in all of them.
\<close>

datatype detail = DStr string | DNum rat | DBool bool

type_synonym details = "(string \<times> detail) list"

record TestResult =
  Test :: string
  Status :: string
  Passed :: bool
  Reason :: string
  Details :: details

record TestResults =
  Category :: string
  TotalTests :: nat
  Passed :: nat
  Failed :: nat
  Steps :: "TestResult list"

definition init_TestResults :: "string \<Rightarrow> TestResults" where
  "init_TestResults category =
     \<lparr>Category = category, TotalTests = 0, Passed = 0, Failed = 0, Steps = []\<rparr>"

definition Add_TestResult ::
  "string \<Rightarrow> bool \<Rightarrow> string \<Rightarrow> details \<Rightarrow> TestResults \<Rightarrow> bool \<times> TestResults" where
  "Add_TestResult test passed reason dets s =
     (let s1 = s\<lparr>TotalTests := TotalTests s + 1\<rparr>;
          s2 = (if passed then s1\<lparr>TestResults.Passed := TestResults.Passed s1 + 1\<rparr>
                else s1\<lparr>Failed := Failed s1 + 1\<rparr>);
          status = (if passed then ''OK'' else ''FAIL'');
          result = \<lparr>Test = test, Status = status, TestResult.Passed = passed,
                    Reason = reason, Details = dets\<rparr>
      in (passed, s2\<lparr>Steps := Steps s2 @ [result]\<rparr>))"

text \<open>A call of \<^verbatim>\<open>Add-TestResult\<close> is given by its four arguments.\<close>

type_synonym call = "string \<times> bool \<times> string \<times> details"

definition add_call :: "TestResults \<Rightarrow> call \<Rightarrow> TestResults" where
  "add_call s c = (case c of (test, passed, reason, dets) \<Rightarrow>
                     snd (Add_TestResult test passed reason dets s))"

definition add_calls :: "call list \<Rightarrow> TestResults \<Rightarrow> TestResults" where
  "add_calls cs s = foldl add_call s cs"

definition call_passed :: "call \<Rightarrow> bool" where
  "call_passed c = fst (snd c)"

definition totalPercentage :: "TestResults \<Rightarrow> rat" where
  \<comment> \<open>the final report of a category runner\<close>
  "totalPercentage s =
     (if 0 < length (Steps s)
      then ps_round (fl (fl (of_nat (TestResults.Passed s) / of_nat (length (Steps s))) * 100)) 1
      else 0)"

definition category_exit :: "TestResults \<Rightarrow> int" where
  \<comment> \<open>the exit code of a category runner that reached its final report\<close>
  "category_exit s = (if 70 \<le> totalPercentage s then 0 else 1)"

text \<open>
  A run either stops before any check with an exit code, or reaches the final report
  with its accumulator, its success rate and its exit code.
\<close>

datatype run = HardFailure string int | Report TestResults rat int

definition exit_code :: "run \<Rightarrow> int" where
  "exit_code r = (case r of HardFailure msg code \<Rightarrow> code | Report s pct code \<Rightarrow> code)"

definition final_report :: "TestResults \<Rightarrow> run" where
  "final_report s = Report s (totalPercentage s) (category_exit s)"

section \<open>The security audit: test-security.ps1\<close>

text \<open>
  Source: \<^verbatim>\<open>src/tests/test-security.ps1\<close>.
  What the container runtime answers is the input of the model.  A command either raises
  a terminating error or yields its output.
\<close>

datatype 'a probe = Threw string | Got 'a

record HostConfig =
  CapDrop :: "string list"     \<comment> \<open>JSON \<^verbatim>\<open>null\<close> and the empty array are both \<open>[]\<close>\<close>
  CapAdd :: "string list"
  SecurityOpt :: "string list"
  Privileged :: bool
  UsernsMode :: string
  Memory :: int
  CpuQuota :: int
  CpuPeriod :: int
  NanoCpus :: int
  ReadonlyRootfs :: bool

record container_facts =
  ps_line :: "string probe"              \<comment> \<open>second line of \<^verbatim>\<open>ps -o user,pid\<close>, empty if none\<close>
  inspect :: "HostConfig option probe"   \<comment> \<open>\<^verbatim>\<open>docker inspect\<close>, \<open>None\<close> when it lists nothing\<close>
  CapEff :: string                       \<comment> \<open>output of the grep on /proc/1/status, empty if none\<close>

definition Test_NonRootUser :: "container_facts \<Rightarrow> string \<Rightarrow> TestResults \<Rightarrow> bool \<times> TestResults" where
  "Test_NonRootUser f Container s =
     (case ps_line f of
        Threw msg \<Rightarrow>
          Add_TestResult (''Non-root user: '' @ Container) False (''Inspection failed: '' @ msg) [] s
      | Got psOutput \<Rightarrow>
          if ps_truthy psOutput then
            (let user = takeWhile (\<lambda>c. \<not> is_space c) psOutput;
                 isRoot = (ps_eq user ''root'' \<or> ps_eq user ''0'')
             in Add_TestResult (''Non-root user: '' @ Container) (\<not> isRoot)
                  (if isRoot then ''Running as root (UID 0)'' else [])
                  [(''User'', DStr user)] s)
          else Add_TestResult (''Non-root user: '' @ Container) False
                 ''Cannot determine process user'' [] s)"

text \<open>
  The table of capabilities expected per container type.  It is a PowerShell hashtable,
  whose keys are enumerated in an order the language does not fix; the loop over the keys
  stops at the first key that matches the container name.  The enumeration order is
  therefore an argument \<open>keys\<close> of the check.
\<close>

definition expectedCaps :: "(string \<times> string list) list" where
  "expectedCaps =
     [(''db'', [''CAP_CHOWN'', ''CAP_DAC_OVERRIDE'', ''CAP_FOWNER'', ''CAP_SETGID'', ''CAP_SETUID'']),
      (''postgres'', [''CAP_CHOWN'', ''CAP_DAC_OVERRIDE'', ''CAP_FOWNER'', ''CAP_SETGID'', ''CAP_SETUID'']),
      (''api'', []),
      (''frontend'', []),
      (''nginx'', []),
      (''node'', [])]"

definition key_order :: "string list \<Rightarrow> bool" where
  \<comment> \<open>\<open>keys\<close> enumerates the keys of the table, each once\<close>
  "key_order keys = (distinct keys \<and> set keys = set (map fst expectedCaps))"

definition containerType :: "string list \<Rightarrow> string \<Rightarrow> string" where
  "containerType keys Container =
     (case find (\<lambda>type. ps_match Container type) keys of None \<Rightarrow> [] | Some type \<Rightarrow> type)"

definition normalizedCap :: "string \<Rightarrow> string" where
  \<comment> \<open>\<^verbatim>\<open>if ($cap -notmatch '^CAP_') { "CAP_$cap" } else { $cap }\<close>\<close>
  "normalizedCap cap = (if \<not> rx_search (Sos # lit_ci ''CAP_'') None cap then ''CAP_'' @ cap else cap)"

definition unexpectedCaps :: "string list \<Rightarrow> string \<Rightarrow> string list \<Rightarrow> string list" where
  "unexpectedCaps keys Container capAdd =
     (if ps_truthy_list capAdd then
        (let type = containerType keys Container;
             expected = (if ps_truthy type
                         then (case map_of expectedCaps type of None \<Rightarrow> [] | Some e \<Rightarrow> e)
                         else [])
         in filter (\<lambda>cap. \<not> ps_contains expected (normalizedCap cap)) capAdd)
      else [])"

definition capsHex :: "string \<Rightarrow> string probe" where
  \<comment> \<open>\<^verbatim>\<open>($capsEffective -split ':')[1].Trim()\<close>; without a colon the index yields
      \<^verbatim>\<open>$null\<close> and the method call raises\<close>
  "capsHex capsEffective =
     (if ps_truthy capsEffective then
        (if CHR '':'' \<in> set capsEffective
         then Got (trim (takeWhile (\<lambda>c. c \<noteq> CHR '':'')
                          (tl (dropWhile (\<lambda>c. c \<noteq> CHR '':'') capsEffective))))
         else Threw ''You cannot call a method on a null-valued expression.'')
      else Got ''unknown'')"

definition Test_Capabilities ::
  "string list \<Rightarrow> container_facts \<Rightarrow> string \<Rightarrow> TestResults \<Rightarrow> bool \<times> TestResults" where
  "Test_Capabilities keys f Container s =
     (case inspect f of
        Threw msg \<Rightarrow> Add_TestResult (''Capabilities: '' @ Container) False ''Inspection failed'' [] s
      | Got None \<Rightarrow> Add_TestResult (''Capabilities: '' @ Container) False ''Container not found'' [] s
      | Got (Some hc) \<Rightarrow>
          (let capDrop = CapDrop hc;
               capAdd = CapAdd hc;
               hasDropAll = ps_contains capDrop ''ALL'';
               capAddCount = (if ps_truthy_list capAdd then length capAdd else 0)
           in case capsHex (CapEff f) of
                Threw msg \<Rightarrow>
                  Add_TestResult (''Capabilities: '' @ Container) False ''Inspection failed'' [] s
              | Got hex \<Rightarrow>
                  (let unexpected = unexpectedCaps keys Container capAdd;
                       passed = (hasDropAll \<and> length unexpected = 0);
                       reason = (if \<not> hasDropAll then ''Missing cap_drop: ALL''
                                 else if 0 < length unexpected
                                 then ''Unexpected capabilities: '' @ ps_join '', '' unexpected
                                 else if 0 < capAddCount
                                 then ''Info: '' @ show_nat capAddCount @ '' justified capabilities added''
                                 else [])
                   in Add_TestResult (''Capabilities: '' @ Container) passed reason
                        [(''CapDrop'', DStr (ps_join '', '' capDrop)),
                         (''CapAdd'', DStr (if ps_truthy_list capAdd then ps_join '', '' capAdd
                                           else ''none'')),
                         (''Effective'', DStr hex)] s)))"

definition Test_SecurityOptions :: "container_facts \<Rightarrow> string \<Rightarrow> TestResults \<Rightarrow> bool \<times> TestResults" where
  "Test_SecurityOptions f Container s =
     (case inspect f of
        Threw msg \<Rightarrow> Add_TestResult (''Security options: '' @ Container) False ''Inspection failed'' [] s
      | Got None \<Rightarrow> Add_TestResult (''Security options: '' @ Container) False ''Container not found'' [] s
      | Got (Some hc) \<Rightarrow>
          (let securityOpt = SecurityOpt hc;
               hasNoNewPrivileges =
                 (if ps_truthy_list securityOpt
                  then ps_contains securityOpt ''no-new-privileges:true''
                       \<or> ps_contains securityOpt ''no-new-privileges''
                  else False)
           in Add_TestResult (''Security options: '' @ Container) hasNoNewPrivileges
                (if \<not> hasNoNewPrivileges then ''Missing no-new-privileges'' else [])
                [(''Options'', DStr (if ps_truthy_list securityOpt then ps_join '', '' securityOpt
                                    else ''none''))] s))"

definition Test_ResourceLimits :: "container_facts \<Rightarrow> string \<Rightarrow> TestResults \<Rightarrow> bool \<times> TestResults" where
  "Test_ResourceLimits f Container s =
     (case inspect f of
        Threw msg \<Rightarrow> Add_TestResult (''Resource limits: '' @ Container) False ''Inspection failed'' [] s
      | Got None \<Rightarrow> Add_TestResult (''Resource limits: '' @ Container) False ''Container not found'' [] s
      | Got (Some hc) \<Rightarrow>
          (let memoryLimit = Memory hc; cpuQuota = CpuQuota hc;
               cpuPeriod = CpuPeriod hc; nanoCpus = NanoCpus hc;
               hasMemoryLimit = (0 < memoryLimit);
               hasCpuLimit = ((0 < cpuQuota \<and> 0 < cpuPeriod) \<or> 0 < nanoCpus);
               passed = (hasMemoryLimit \<and> hasCpuLimit);
               reasons = (if \<not> hasMemoryLimit then [''No memory limit''] else [])
                         @ (if \<not> hasCpuLimit then [''No CPU limit''] else []);
               memoryMB = (if hasMemoryLimit then ps_round (fl (of_int memoryLimit / 1048576)) 0 else 0);
               cpuCores = (if 0 < nanoCpus then ps_round (fl (of_int nanoCpus / 1000000000)) 2
                           else if hasCpuLimit then ps_round (fl (of_int cpuQuota / of_int cpuPeriod)) 2
                           else 0)
           in Add_TestResult (''Resource limits: '' @ Container) passed (ps_join '', '' reasons)
                [(''MemoryMB'', DNum memoryMB), (''CPUCores'', DNum cpuCores)] s))"

definition writableAllowed :: "string list" where
  "writableAllowed = [''db'', ''postgres'', ''mysql'', ''mongo'', ''redis'', ''api'', ''nginx'', ''frontend'']"

definition Test_ReadOnlyRootFS :: "container_facts \<Rightarrow> string \<Rightarrow> TestResults \<Rightarrow> bool \<times> TestResults" where
  "Test_ReadOnlyRootFS f Container s =
     (case inspect f of
        Threw msg \<Rightarrow> Add_TestResult (''Read-only rootfs: '' @ Container) False ''Inspection failed'' [] s
      | Got None \<Rightarrow> Add_TestResult (''Read-only rootfs: '' @ Container) False ''Container not found'' [] s
      | Got (Some hc) \<Rightarrow>
          (let readonlyRootfs = ReadonlyRootfs hc;
               isAllowedWritable = list_ex (\<lambda>allowed. ps_match Container allowed) writableAllowed;
               passed = (readonlyRootfs \<or> isAllowedWritable);
               reason = (if \<not> readonlyRootfs \<and> \<not> isAllowedWritable
                         then ''Filesystem writable without justification''
                         else if \<not> readonlyRootfs then ''Writable (justified for this service type)''
                         else [])
           in Add_TestResult (''Read-only rootfs: '' @ Container) passed reason
                [(''ReadOnly'', DBool readonlyRootfs)] s))"

definition for_each :: "('t \<Rightarrow> TestResults \<Rightarrow> bool \<times> TestResults) \<Rightarrow> 't list \<Rightarrow> TestResults \<Rightarrow> TestResults" where
  \<comment> \<open>\<^verbatim>\<open>foreach ($t in $list) { Test-... $t | Out-Null }\<close>\<close>
  "for_each test targets s = foldl (\<lambda>s t. snd (test t s)) s targets"

definition Get_ContainerList :: "string list \<Rightarrow> string list" where
  \<comment> \<open>the names printed by \<^verbatim>\<open>docker ps\<close>, or nothing\<close>
  "Get_ContainerList running = (if ps_truthy_list running then running else [])"

definition security_main ::
  "string list \<Rightarrow> string list \<Rightarrow> string list \<Rightarrow> (string \<Rightarrow> container_facts) \<Rightarrow> run" where
  \<comment> \<open>\<open>Containers\<close> is the script parameter, \<open>running\<close> the output of \<^verbatim>\<open>docker ps\<close>\<close>
  "security_main keys Containers running facts =
     (let containerList = (if ps_truthy_list Containers then Containers
                           else Get_ContainerList running)
      in if \<not> ps_truthy_list containerList \<or> length containerList = 0
         then HardFailure ''No running containers found'' 1
         else
           (let s0 = init_TestResults ''SECURITY'';
                s1 = for_each (\<lambda>c. Test_NonRootUser (facts c) c) containerList s0;
                s2 = for_each (\<lambda>c. Test_Capabilities keys (facts c) c) containerList s1;
                s3 = for_each (\<lambda>c. Test_SecurityOptions (facts c) c) containerList s2;
                s4 = for_each (\<lambda>c. Test_ResourceLimits (facts c) c) containerList s3;
                s5 = for_each (\<lambda>c. Test_ReadOnlyRootFS (facts c) c) containerList s4
            in final_report s5))"

section \<open>The capabilities audit: test-security-caps.ps1\<close>

text \<open>
  The text of this script (headed Test Script: Docker Security Capabilities Audit) is kept in
  \<^verbatim>\<open>src/frontend/README.md\<close>, after the README itself (lines 305 to 596).
  \<^verbatim>\<open>Test-ContainerCapabilities\<close> gives a service a score out of six, one point per
  check, half a point where a check is partly met.  The scores are multiples of one half
  and are kept as rationals.  Of the console output only the lines of the first check are
  part of the model (without their indentation and leading icon); the other checks are
  modelled by the credit they add.
\<close>

datatype color = Green | Yellow | Red | Gray

definition CapDrop_check :: "string list \<Rightarrow> rat \<times> (color \<times> string) list" where
  \<comment> \<open>check 1 of 6: dropped capabilities\<close>
  "CapDrop_check capDrop =
     (if ps_truthy_list capDrop \<and> ps_contains capDrop ''ALL''
      then (1, [(Green, ''CapDrop: ALL (all capabilities dropped)'')])
      else if ps_truthy_list capDrop \<and> 0 < length capDrop
      then (1 / 2, [(Yellow, ''CapDrop: '' @ ps_join '', '' capDrop),
                    (Yellow, ''Recommendation: Use 'ALL' to drop all capabilities'')])
      else (0, [(Red, ''No capabilities dropped (HIGH RISK!)''),
                (Red, ''Container has Docker's 14 default capabilities'')]))"

definition RequiredCaps :: "(string \<times> string list) list" where
  "RequiredCaps =
     [(''nginx'', [''CAP_CHOWN'', ''CAP_SETGID'', ''CAP_SETUID'']),
      (''frontend'', [''CAP_CHOWN'', ''CAP_SETGID'', ''CAP_SETUID'']),
      (''postgres'', [''CAP_CHOWN'', ''CAP_DAC_OVERRIDE'', ''CAP_FOWNER'', ''CAP_SETGID'', ''CAP_SETUID'']),
      (''db'', [''CAP_CHOWN'', ''CAP_DAC_OVERRIDE'', ''CAP_FOWNER'', ''CAP_SETGID'', ''CAP_SETUID'']),
      (''node'', []),
      (''api'', [])]"

definition Justified :: "string \<Rightarrow> string \<Rightarrow> bool" where
  \<comment> \<open>the inner loop stops at the first justifying entry, so the order of the keys
      does not matter here\<close>
  "Justified ServiceName cap =
     list_ex (\<lambda>(service, caps). ps_match ServiceName service \<and> ps_contains caps cap) RequiredCaps"

definition CapAdd_credit :: "string \<Rightarrow> string list \<Rightarrow> rat" where
  \<comment> \<open>check 2 of 6: added capabilities\<close>
  "CapAdd_credit ServiceName capAdd =
     (if \<not> ps_truthy_list capAdd \<or> length capAdd = 0 then 1
      else if list_all (Justified ServiceName) capAdd then 1 else 1 / 2)"

definition SecurityOpt_credit :: "string list \<Rightarrow> rat" where
  "SecurityOpt_credit securityOpt =
     (if ps_truthy_list securityOpt \<and> ps_contains securityOpt ''no-new-privileges:true''
      then 1 else 0)"

definition Privileged_credit :: "bool \<Rightarrow> rat" where
  "Privileged_credit privileged = (if privileged then 0 else 1)"

definition UsernsMode_credit :: "string \<Rightarrow> rat" where
  "UsernsMode_credit usernsMode =
     (if ps_eq usernsMode ''host'' then 0 else if ps_truthy usernsMode then 1 else 1 / 2)"

definition Limits_credit :: "int \<Rightarrow> int \<Rightarrow> int \<Rightarrow> rat" where
  "Limits_credit memory cpuQuota cpuPeriod =
     (if 0 < memory \<or> (0 < cpuQuota \<and> 0 < cpuPeriod) then 1 else 0)"

record service_facts =
  ContainerID :: string                \<comment> \<open>\<^verbatim>\<open>docker compose ps -q\<close>, empty if the service is absent\<close>
  Inspect :: "HostConfig option"       \<comment> \<open>\<^verbatim>\<open>docker inspect\<close> of that container\<close>

record caps_result =
  service :: string
  score :: rat
  maxScore :: nat                      \<comment> \<open>absent from the early results; it then adds 0\<close>
  percentage :: int

definition Test_ContainerCapabilities :: "service_facts \<Rightarrow> string \<Rightarrow> caps_result" where
  "Test_ContainerCapabilities f ServiceName =
     (if \<not> ps_truthy (ContainerID f)
      then \<lparr>service = ServiceName, score = 0, maxScore = 0, percentage = 0\<rparr>
      else case Inspect f of
        None \<Rightarrow> \<lparr>service = ServiceName, score = 0, maxScore = 0, percentage = 0\<rparr>
      | Some hc \<Rightarrow>
          (let Score = fst (CapDrop_check (CapDrop hc))
                     + CapAdd_credit ServiceName (CapAdd hc)
                     + SecurityOpt_credit (SecurityOpt hc)
                     + Privileged_credit (Privileged hc)
                     + UsernsMode_credit (UsernsMode hc)
                     + Limits_credit (Memory hc) (CpuQuota hc) (CpuPeriod hc);
               MaxScore = 6
           in \<lparr>service = ServiceName, score = Score, maxScore = MaxScore,
               percentage = round_half_even (fl (fl (Score / of_nat MaxScore) * 100))\<rparr>))"

text \<open>
  The services are fixed.  A service that is not found, or cannot be inspected, yields a
  result without \<^verbatim>\<open>maxScore\<close>, which adds nothing to either total; the script has no
  other treatment of a missing service and always goes on to its global report.  The report
  prints the line \<^verbatim>\<open>Score total: $TotalScore/$TotalMaxScore ($GlobalPercentage%)\<close>.
\<close>

record caps_report =
  TotalScore :: rat
  TotalMaxScore :: nat
  GlobalPercentage :: int
  ExitStatus :: int

definition caps_main :: "(string \<Rightarrow> service_facts) \<Rightarrow> caps_report" where
  "caps_main facts =
     (let Results = map (\<lambda>sv. Test_ContainerCapabilities (facts sv) sv) [''api'', ''frontend'', ''db''];
          TotalScore = sum_list (map score Results);
          TotalMaxScore = sum_list (map maxScore Results);
          GlobalPercentage = (if 0 < TotalMaxScore
                              then round_half_even (fl (fl (TotalScore / of_nat TotalMaxScore) * 100))
                              else 0)
      in \<lparr>TotalScore = TotalScore, TotalMaxScore = TotalMaxScore,
          GlobalPercentage = GlobalPercentage,
          ExitStatus = (if 80 \<le> GlobalPercentage then 0
                        else if 60 \<le> GlobalPercentage then 1 else 2)\<rparr>)"

section \<open>The multi-stage build audit: test-multistage.ps1\<close>

text \<open>
  Source: \<^verbatim>\<open>src/unnamed/part_008\<close>, which holds the text of the script.
\<close>

definition nonspace :: "char \<Rightarrow> bool" where
  "nonspace c = (\<not> is_space c)"

definition from_pattern :: "rx_item list" where
  \<comment> \<open>\<^verbatim>\<open>(?mi)^\s*FROM\s+\<close>\<close>
  "from_pattern = Bol # Star is_space # lit_ci ''FROM'' @ plus is_space"

definition named_stage_pattern :: "rx_item list" where
  \<comment> \<open>\<^verbatim>\<open>(?mi)^\s*FROM\s+\S+\s+AS\s+(\S+)\<close>\<close>
  "named_stage_pattern =
     Bol # Star is_space # lit_ci ''FROM'' @ plus is_space @ plus nonspace @ plus is_space
       @ lit_ci ''AS'' @ plus is_space @ [CapPlus nonspace]"

definition copy_from_pattern :: "rx_item list" where
  \<comment> \<open>\<^verbatim>\<open>COPY\s+--from=(\S+)\<close>, case-sensitive\<close>
  "copy_from_pattern = lit ''COPY'' @ plus is_space @ lit ''--from='' @ [CapPlus nonspace]"

definition from_image_pattern :: "rx_item list" where
  \<comment> \<open>\<^verbatim>\<open>(?mi)^\s*FROM\s+([^\s\r\n]+)\<close>\<close>
  "from_image_pattern = Bol # Star is_space # lit_ci ''FROM'' @ plus is_space @ [CapPlus nonspace]"

definition Matches :: "rx_item list \<Rightarrow> string \<Rightarrow> string list" where
  "Matches pat content = rx_matches pat None content"

text \<open>
  A Dockerfile target.  The path cmdlets and the file system are the environment:
  \<open>leaf\<close> is \<^verbatim>\<open>Split-Path $DockerfilePath -Leaf\<close>, \<open>parentFolder\<close> is
  \<^verbatim>\<open>Split-Path (Split-Path $DockerfilePath -Parent) -Leaf\<close>, which raises when the path
  has no parent part, and \<open>content\<close> is the text read by \<^verbatim>\<open>Get-Content -Raw\<close>.
  An empty file reads as \<^verbatim>\<open>$null\<close>, on which \<^verbatim>\<open>[regex]::Matches\<close> raises: for the checks
  this is the case \<open>Threw\<close> of \<open>content\<close>.
\<close>

record dockerfile_facts =
  exists :: bool
  leaf :: string
  parentFolder :: "string probe"
  content :: "string probe"

definition optional_folders :: "string list" where
  "optional_folders = [''db'', ''database'', ''postgres'', ''mysql'', ''mongo'', ''redis'']"

definition Test_MultiStageDetection :: "dockerfile_facts \<Rightarrow> TestResults \<Rightarrow> bool \<times> TestResults" where
  "Test_MultiStageDetection f s =
     (if \<not> exists f then Add_TestResult (''Multi-stage: '' @ leaf f) False ''File not found'' [] s
      else case content f of
        Threw msg \<Rightarrow> Add_TestResult (''Multi-stage: '' @ leaf f) False (''Parse error: '' @ msg) [] s
      | Got text \<Rightarrow>
          (let stageCount = length (Matches from_pattern text);
               namedStageNames = Matches named_stage_pattern text;
               copyFromUsage = Matches copy_from_pattern text;
               isMultiStage = (2 \<le> stageCount)
           in case parentFolder f of
                Threw msg \<Rightarrow>
                  Add_TestResult (''Multi-stage: '' @ leaf f) False (''Parse error: '' @ msg) [] s
              | Got folder \<Rightarrow>
                  (let multiStageOptional = ps_match_any folder optional_folders;
                       passed = (isMultiStage \<or> multiStageOptional);
                       reason = (if \<not> isMultiStage \<and> multiStageOptional
                                 then ''Single-stage (optional for '' @ folder @ '' - database image)''
                                 else if \<not> isMultiStage
                                 then ''Only '' @ show_nat stageCount @ '' stage(s) found''
                                 else [])
                   in Add_TestResult (''Multi-stage: '' @ leaf f) passed reason
                        [(''Stages'', DNum (of_nat stageCount)),
                         (''NamedStages'', DStr (ps_join '', '' namedStageNames)),
                         (''CopyFromCount'', DNum (of_nat (length copyFromUsage))),
                         (''Optional'', DBool multiStageOptional)] s)))"

definition Test_AlpineBaseImage :: "dockerfile_facts \<Rightarrow> TestResults \<Rightarrow> bool \<times> TestResults" where
  "Test_AlpineBaseImage f s =
     (if \<not> exists f then Add_TestResult (''Alpine image: '' @ leaf f) False ''File not found'' [] s
      else case content f of
        Threw msg \<Rightarrow> Add_TestResult (''Alpine image: '' @ leaf f) False ''Parse error'' [] s
      | Got text \<Rightarrow>
          (let fromStatements = Matches from_image_pattern text
           in if length fromStatements = 0
              then Add_TestResult (''Alpine image: '' @ leaf f) False ''No FROM statement found'' [] s
              else
                (let finalFrom = fromStatements ! (length fromStatements - 1);
                     isAlpine = ps_match finalFrom ''alpine''
                 in Add_TestResult (''Alpine image: '' @ leaf f) isAlpine
                      (if \<not> isAlpine then ''Base: '' @ finalFrom @ '' (not Alpine)'' else [])
                      [(''BaseImage'', DStr finalFrom)] s)))"

definition show_hundredths :: "nat \<Rightarrow> string" where
  \<comment> \<open>a number of hundredths as PowerShell prints the double: no trailing zeros\<close>
  "show_hundredths n =
     (let ip = n div 100; fp = n mod 100
      in if fp = 0 then show_nat ip
         else if fp mod 10 = 0 then show_nat ip @ ''.'' @ show_nat (fp div 10)
         else show_nat ip @ ''.'' @ show_nat (fp div 10) @ show_nat (fp mod 10))"

record image_facts =
  Size :: "int option probe"       \<comment> \<open>\<^verbatim>\<open>docker inspect\<close>: the size in bytes, \<open>None\<close> if no image\<close>
  history :: "string list probe"   \<comment> \<open>the lines of \<^verbatim>\<open>docker history\<close>\<close>

definition Test_ImageSize :: "image_facts \<Rightarrow> string \<Rightarrow> TestResults \<Rightarrow> bool \<times> TestResults" where
  "Test_ImageSize f Img s =
     (case Size f of
        Threw msg \<Rightarrow> Add_TestResult (''Image size: '' @ Img) False ''Inspection failed'' [] s
      | Got None \<Rightarrow> Add_TestResult (''Image size: '' @ Img) False ''Image not found'' [] s
      | Got (Some sizeBytes) \<Rightarrow>
          (let sizeMB = ps_round (fl (of_int sizeBytes / 1048576)) 2;
               isOptimal = (sizeMB \<le> 500)
           in Add_TestResult (''Image size: '' @ Img) isOptimal
                (if \<not> isOptimal
                 then show_hundredths (nat (round_scaled (fl (of_int sizeBytes / 1048576)) 2))
                      @ '' MB (exceeds 500 MB)'' else [])
                [(''SizeMB'', DNum sizeMB)] s))"

definition lenient_bases :: "string list" where
  "lenient_bases = [''postgres'', ''mysql'', ''mongo'', ''redis'', ''nginx'', ''node'', ''alpine'',
     ''mariadb'', ''phpmyadmin'', ''apache'', ''td_docker_2025-db'', ''td_docker_2025-frontend'']"

definition Test_LayerCount :: "image_facts \<Rightarrow> string \<Rightarrow> TestResults \<Rightarrow> bool \<times> TestResults" where
  "Test_LayerCount f Img s =
     (case history f of
        Threw msg \<Rightarrow> Add_TestResult (''Layer count: '' @ Img) False ''History retrieval failed'' [] s
      | Got lines \<Rightarrow>
          if \<not> ps_truthy_list lines
          then Add_TestResult (''Layer count: '' @ Img) False ''Cannot retrieve history'' [] s
          else
            (let layerCount = length lines;
                 threshold = (if ps_match_any Img lenient_bases then 30 else 20);
                 isOptimal = (layerCount \<le> threshold);
                 reason = (if \<not> isOptimal
                           then show_nat layerCount @ '' layers (exceeds '' @ show_nat threshold @ '')''
                           else [])
             in Add_TestResult (''Layer count: '' @ Img) isOptimal reason
                  [(''Layers'', DNum (of_nat layerCount)), (''Threshold'', DNum (of_nat threshold))] s))"

definition Get_DockerfileList :: "string list \<Rightarrow> string list \<Rightarrow> string list" where
  \<comment> \<open>\<open>found\<close> is what the recursive search for files named Dockerfile returns\<close>
  "Get_DockerfileList Dockerfiles found = (if ps_truthy_list Dockerfiles then Dockerfiles else found)"

definition project_image :: "string \<Rightarrow> bool" where
  "project_image img =
     (ps_match img ''td_docker_2025'' \<or> ps_match img ''lenderdiam/td_docker_2025''
      \<or> rx_search (Sos # lit_ci ''node:22-alpine'') None img
      \<or> rx_search (Sos # lit_ci ''postgres:15-alpine'') None img
      \<or> rx_search (Sos # lit_ci ''nginx:'' @ [Star (\<lambda>c. c \<noteq> CHR 0x0A)] @ lit_ci ''-alpine'') None img)"

definition Get_ImageList :: "string list \<Rightarrow> string list \<Rightarrow> string list" where
  \<comment> \<open>\<open>listed\<close> is the output of \<^verbatim>\<open>docker images\<close>, one repository:tag per line\<close>
  "Get_ImageList Images listed =
     (if ps_truthy_list Images then Images
      else
        (let allImages = filter (\<lambda>i. \<not> rx_search (Sos # lit_ci ''<none>:'') None i) listed;
             projectImages = filter project_image allImages
         in if ps_truthy_list projectImages then projectImages
            else filter (\<lambda>i. ps_match i ''td_docker_2025'') allImages))"

definition multistage_main ::
  "string list \<Rightarrow> string list \<Rightarrow> string list \<Rightarrow> string list \<Rightarrow>
   (string \<Rightarrow> dockerfile_facts) \<Rightarrow> (string \<Rightarrow> image_facts) \<Rightarrow> run" where
  "multistage_main Dockerfiles Images found listed dfacts ifacts =
     (let dockerfileList = Get_DockerfileList Dockerfiles found;
          imageList = Get_ImageList Images listed
      in if \<not> ps_truthy_list dockerfileList \<or> length dockerfileList = 0
         then HardFailure ''No Dockerfiles found'' 1
         else
           (let s0 = init_TestResults ''MULTI-STAGE BUILD'';
                s1 = for_each (\<lambda>d. Test_MultiStageDetection (dfacts d)) dockerfileList s0;
                s2 = for_each (\<lambda>d. Test_AlpineBaseImage (dfacts d)) dockerfileList s1;
                s3 = (if ps_truthy_list imageList \<and> 0 < length imageList
                      then for_each (\<lambda>i. Test_ImageSize (ifacts i) i) imageList s2 else s2);
                s4 = (if ps_truthy_list imageList \<and> 0 < length imageList
                      then for_each (\<lambda>i. Test_LayerCount (ifacts i) i) imageList s3 else s3)
            in final_report s4))"

section \<open>The suite aggregator: run-all-tests.ps1\<close>

text \<open>
  Source: \<^verbatim>\<open>src/run-all-tests.ps1\<close>.
\<close>

record TestConfig =
  Name :: string
  File :: string
  Path :: string

definition TestFiles :: "TestConfig list" where
  "TestFiles =
     [\<lparr>Name = ''Non-Root Users'', File = ''test-nonroot-users.ps1'', Path = ''tests''\<rparr>,
      \<lparr>Name = ''Security Capabilities'', File = ''test-security-caps.ps1'', Path = ''tests''\<rparr>,
      \<lparr>Name = ''Security Audit'', File = ''test-security.ps1'', Path = ''tests''\<rparr>,
      \<lparr>Name = ''Security Scan (Trivy)'', File = ''test-security-scan.ps1'', Path = ''tests''\<rparr>,
      \<lparr>Name = ''API Functional Tests'', File = ''test-api.ps1'', Path = ''tests''\<rparr>,
      \<lparr>Name = ''Environment Configuration'', File = ''test-environment.ps1'', Path = ''tests''\<rparr>,
      \<lparr>Name = ''Multi-Stage Builds'', File = ''test-multistage.ps1'', Path = ''tests''\<rparr>,
      \<lparr>Name = ''Docker Compose Orchestration'', File = ''test-orchestration.ps1'', Path = ''tests''\<rparr>]"

text \<open>
  What happens when the aggregator reaches a test file: the file is missing, the script
  runs and leaves an exit code, or running it raises.
\<close>

datatype script_run = FileNotFound | Exited int | Raised string

record SuiteResult =
  Name :: string
  Passed :: bool
  Status :: string
  ExitCode :: int

definition show_int :: "int \<Rightarrow> string" where
  "show_int i = (if i < 0 then ''-'' @ show_nat (nat (- i)) else show_nat (nat i))"

fun run_tests ::
  "bool \<Rightarrow> (TestConfig \<Rightarrow> script_run) \<Rightarrow> TestConfig list \<Rightarrow> SuiteResult list \<Rightarrow> SuiteResult list" where
  \<comment> \<open>the main loop; \<open>Results\<close> is \<^verbatim>\<open>$Script:TestSuite.Results\<close>\<close>
  "run_tests StopOnFailure env [] Results = Results"
| "run_tests StopOnFailure env (testConfig # rest) Results =
     (case env testConfig of
        FileNotFound \<Rightarrow>
          run_tests StopOnFailure env rest
            (Results @ [\<lparr>Name = TestConfig.Name testConfig, Passed = False,
                         Status = ''FILE NOT FOUND'', ExitCode = - 1\<rparr>])
      | Exited exitCode \<Rightarrow>
          if exitCode = 0
          then run_tests StopOnFailure env rest
                 (Results @ [\<lparr>Name = TestConfig.Name testConfig, Passed = True,
                              Status = ''PASSED'', ExitCode = exitCode\<rparr>])
          else
            (let Results' = Results @ [\<lparr>Name = TestConfig.Name testConfig, Passed = False,
                                         Status = ''FAILED (Exit: '' @ show_int exitCode @ '')'',
                                         ExitCode = exitCode\<rparr>]
             in if StopOnFailure then Results' else run_tests StopOnFailure env rest Results')
      | Raised msg \<Rightarrow>
          (let Results' = Results @ [\<lparr>Name = TestConfig.Name testConfig, Passed = False,
                                       Status = ''ERROR'', ExitCode = - 1\<rparr>]
           in if StopOnFailure then Results' else run_tests StopOnFailure env rest Results'))"

text \<open>
  \<^verbatim>\<open>($list | Where-Object { ... }).Count\<close>.  The pipeline in parentheses yields nothing,
  the single object that passed the filter, or an array of the objects that passed.
  \<^verbatim>\<open>.Count\<close> of nothing is 0 and of an array its length; the single object here is a
  hashtable, whose own \<^verbatim>\<open>Count\<close> property is the number of its entries.
\<close>

definition where_Count :: "('a \<Rightarrow> bool) \<Rightarrow> ('a \<Rightarrow> nat) \<Rightarrow> 'a list \<Rightarrow> nat" where
  "where_Count P entries xs =
     (case filter P xs of [] \<Rightarrow> 0 | [x] \<Rightarrow> entries x | x # y # zs \<Rightarrow> length (x # y # zs))"

definition result_entries :: "SuiteResult \<Rightarrow> nat" where
  \<comment> \<open>a result hashtable has the keys Name, Passed, Status and ExitCode\<close>
  "result_entries r = 4"

record summary =
  totalTests :: nat
  passedTests :: nat
  failedTests :: int
  global_score :: rat

definition Write_TestSummary :: "SuiteResult list \<Rightarrow> summary" where
  "Write_TestSummary Results =
     (let totalTests = length Results;
          passedTests = where_Count SuiteResult.Passed result_entries Results;
          failedTests = int totalTests - int passedTests;
          percentage = (if passedTests = totalTests then 100
                        else ps_round (fl (fl (of_nat passedTests / of_nat totalTests) * 100)) 1)
      in \<lparr>totalTests = totalTests, passedTests = passedTests, failedTests = failedTests,
          global_score = percentage\<rparr>)"

definition suite_exit :: "SuiteResult list \<Rightarrow> int" where
  "suite_exit Results =
     (let failedCount = where_Count (\<lambda>r. \<not> SuiteResult.Passed r) result_entries Results
      in if failedCount = 0 then 0 else 1)"

definition suite_main ::
  "bool \<Rightarrow> (TestConfig \<Rightarrow> script_run) \<Rightarrow> TestConfig list \<Rightarrow> SuiteResult list \<times> summary \<times> int" where
  \<comment> \<open>the aggregator over a configured list of test files; the script's own list is
      \<open>TestFiles\<close>\<close>
  "suite_main StopOnFailure env files =
     (let Results = run_tests StopOnFailure env files []
      in (Results, Write_TestSummary Results, suite_exit Results))"

section \<open>The readiness endpoint of the API\<close>

text \<open>
  Sources: \<^verbatim>\<open>src/api/src/repositories/item.repository.js\<close>,
  \<^verbatim>\<open>src/api/src/services/item.service.js\<close> and
  \<^verbatim>\<open>src/api/src/controllers/health.controller.js\<close>.
  \<^verbatim>\<open>ItemRepository.healthCheck\<close> runs \<^verbatim>\<open>SELECT 1\<close> on the pool and catches every
  error of the query; \<^verbatim>\<open>ItemService.checkDatabaseHealth\<close> turns the answer into a
  health object; \<^verbatim>\<open>HealthController.ready\<close> answers the request.  The outcome of the
  query and the clock are the inputs.
\<close>

datatype query_outcome = QueryOk | QueryError string

definition healthCheck :: "query_outcome \<Rightarrow> bool" where
  "healthCheck q = (case q of QueryOk \<Rightarrow> True | QueryError msg \<Rightarrow> False)"

record health =
  database :: string
  timestamp :: string

definition checkDatabaseHealth :: "query_outcome \<Rightarrow> string \<Rightarrow> health" where
  "checkDatabaseHealth q now =
     (let isHealthy = healthCheck q
      in \<lparr>database = (if isHealthy then ''healthy'' else ''unhealthy''), timestamp = now\<rparr>)"

datatype json = JBool bool | JString string

record response =
  status :: nat
  body :: "(string \<times> json) list"

definition ready :: "query_outcome \<Rightarrow> string \<Rightarrow> response" where
  \<comment> \<open>the body is the object \<^verbatim>\<open>{ ready: isReady, ...health }\<close>\<close>
  "ready q now =
     (let h = checkDatabaseHealth q now;
          isReady = (database h = ''healthy'')
      in \<lparr>status = (if isReady then 200 else 503),
          body = [(''ready'', JBool isReady),
                  (''database'', JString (database h)),
                  (''timestamp'', JString (timestamp h))]\<rparr>)"

section \<open>Dockerfile text read line by line\<close>









fun anchor_free :: "rx_item list \<Rightarrow> bool" where
  "anchor_free [] = True"
| "anchor_free (Sos # is) = False"
| "anchor_free (Bol # is) = False"
| "anchor_free (Ch p # is) = anchor_free is"
| "anchor_free (Star p # is) = anchor_free is"
| "anchor_free (CapPlus p # is) = anchor_free is"
| "anchor_free (CapRest p acc # is) = anchor_free is"









section \<open>Auxiliary notions for the proofs\<close>

definition step_of :: "call \<Rightarrow> TestResult" where
  \<comment> \<open>the result hashtable that a call of \<^verbatim>\<open>Add-TestResult\<close> appends\<close>
  "step_of c = (case c of (test, passed, reason, dets) \<Rightarrow>
     \<lparr>Test = test, TestResult.Status = (if passed then ''OK'' else ''FAIL''),
      TestResult.Passed = passed, Reason = reason, Details = dets\<rparr>)"

definition single_call :: "(TestResults \<Rightarrow> bool \<times> TestResults) \<Rightarrow> bool" where
  \<comment> \<open>a check that records exactly one result and returns its outcome\<close>
  "single_call test = (\<exists>c. \<forall>s. test s = (call_passed c, add_call s c))"

definition suite_entry :: "(TestConfig \<Rightarrow> script_run) \<Rightarrow> TestConfig \<Rightarrow> SuiteResult" where
  \<comment> \<open>the entry that the aggregator records for a test file\<close>
  "suite_entry env t =
     (case env t of
        FileNotFound \<Rightarrow> \<lparr>Name = TestConfig.Name t, Passed = False,
                          Status = ''FILE NOT FOUND'', ExitCode = - 1\<rparr>
      | Exited exitCode \<Rightarrow>
          if exitCode = 0
          then \<lparr>Name = TestConfig.Name t, Passed = True, Status = ''PASSED'', ExitCode = exitCode\<rparr>
          else \<lparr>Name = TestConfig.Name t, Passed = False,
                 Status = ''FAILED (Exit: '' @ show_int exitCode @ '')'', ExitCode = exitCode\<rparr>
      | Raised msg \<Rightarrow> \<lparr>Name = TestConfig.Name t, Passed = False, Status = ''ERROR'', ExitCode = - 1\<rparr>)"

definition failed_run :: "(TestConfig \<Rightarrow> script_run) \<Rightarrow> TestConfig \<Rightarrow> bool" where
  \<comment> \<open>the script ran and failed: a nonzero exit code or an error raised\<close>
  "failed_run env t = (case env t of FileNotFound \<Rightarrow> False | Exited c \<Rightarrow> c \<noteq> 0 | Raised msg \<Rightarrow> True)"

definition db_caps :: "string list" where
  \<comment> \<open>the capabilities that the table lists for db and for postgres\<close>
  "db_caps = [''CAP_CHOWN'', ''CAP_DAC_OVERRIDE'', ''CAP_FOWNER'', ''CAP_SETGID'', ''CAP_SETUID'']"

section \<open>Sample inputs\<close>

definition sample_calls :: "call list" where
  \<comment> \<open>ten checks, seven of which pass\<close>
  "sample_calls = map (\<lambda>i. (''check '' @ show_nat i, i < 7, (if i < 7 then [] else ''failed''), [])) [0..<10]"

definition sample_HostConfig :: HostConfig where
  "sample_HostConfig =
     \<lparr>CapDrop = [''ALL''], CapAdd = [''CHOWN'', ''SETUID''],
      SecurityOpt = [''no-new-privileges:true''], Privileged = False, UsernsMode = [],
      Memory = 536870912, CpuQuota = 0, CpuPeriod = 0, NanoCpus = 500000000,
      ReadonlyRootfs = False\<rparr>"

definition sample_facts :: container_facts where
  "sample_facts =
     \<lparr>ps_line = Got ''postgres     1'', inspect = Got (Some sample_HostConfig),
      CapEff = ''CapEff: 00000000000004c3''\<rparr>"

definition partial_drop_facts :: container_facts where
  \<comment> \<open>the sample container with a drop-list that is not empty and lacks ALL\<close>
  "partial_drop_facts =
     sample_facts\<lparr>inspect := Got (Some (sample_HostConfig\<lparr>CapDrop := [''NET_RAW'', ''MKNOD'']\<rparr>))\<rparr>"

definition no_service :: "string \<Rightarrow> service_facts" where
  \<comment> \<open>no container is running: \<^verbatim>\<open>docker compose ps -q\<close> prints nothing for any service\<close>
  "no_service sv = \<lparr>ContainerID = [], Inspect = None\<rparr>"

definition source_order :: "string list" where
  \<comment> \<open>the keys of the table in the order in which the script writes them\<close>
  "source_order = map fst expectedCaps"

definition LF :: string where
  "LF = [CHR 0x0A]"


definition single_stage_dockerfile :: string where
  "single_stage_dockerfile =
     ''FROM postgres:15-alpine'' @ LF @ ''COPY init/ /docker-entrypoint-initdb.d/'' @ LF"


definition dockerfile_in :: "string \<Rightarrow> string \<Rightarrow> dockerfile_facts" where
  "dockerfile_in folder text =
     \<lparr>exists = True, leaf = ''Dockerfile'', parentFolder = Got folder, content = Got text\<rparr>"

definition api_first :: "string list" where
  \<comment> \<open>an enumeration of the keys of the table in which api comes before db\<close>
  "api_first = [''api'', ''db'', ''postgres'', ''frontend'', ''nginx'', ''node'']"









definition only_first_passes :: "TestConfig \<Rightarrow> script_run" where
  \<comment> \<open>the first test script exits with 0, every other one with 1\<close>
  "only_first_passes t = (if File t = ''test-nonroot-users.ps1'' then Exited 0 else Exited 1)"

definition one_pass_two_missing :: "TestConfig \<Rightarrow> script_run" where
  \<comment> \<open>the first script passes, the next two files are missing, the others exit with 1\<close>
  "one_pass_two_missing t =
     (if File t = ''test-nonroot-users.ps1'' then Exited 0
      else if File t = ''test-security-caps.ps1'' \<or> File t = ''test-security.ps1'' then FileNotFound
      else Exited 1)"

definition first_missing :: "TestConfig \<Rightarrow> script_run" where
  \<comment> \<open>the first test file is missing, every other script exits with 0\<close>
  "first_missing t = (if File t = ''test-nonroot-users.ps1'' then FileNotFound else Exited 0)"

definition six_files :: "TestConfig list" where
  "six_files = take 6 TestFiles"

definition one_of_six_fails :: "TestConfig \<Rightarrow> script_run" where
  "one_of_six_fails t = (if File t = ''test-security.ps1'' then Exited 1 else Exited 0)"

section \<open>Every check records one result\<close>

lemma Add_TestResult_call:
  "Add_TestResult t p r d s = (call_passed (t, p, r, d), add_call s (t, p, r, d))"
  by (simp add: Add_TestResult_def add_call_def call_passed_def Let_def)

lemma add_call_fields:
  "TotalTests (add_call s c) = TotalTests s + 1"
  "TestResults.Passed (add_call s c) = TestResults.Passed s + (if call_passed c then 1 else 0)"
  "Failed (add_call s c) = Failed s + (if call_passed c then 0 else 1)"
  "Steps (add_call s c) = Steps s @ [step_of c]"
  "Category (add_call s c) = Category s"
  by (cases c; simp add: add_call_def Add_TestResult_def call_passed_def step_of_def Let_def)+

lemma add_calls_fields:
  "TotalTests (add_calls cs s) = TotalTests s + length cs"
  "TestResults.Passed (add_calls cs s) = TestResults.Passed s + length (filter call_passed cs)"
  "Failed (add_calls cs s) = Failed s + length (filter (\<lambda>c. \<not> call_passed c) cs)"
  "Steps (add_calls cs s) = Steps s @ map step_of cs"
  "Category (add_calls cs s) = Category s"
  by (induction cs arbitrary: s; simp add: add_calls_def add_call_fields)+

lemma step_of_fields:
  "TestResult.Passed (step_of c) = call_passed c"
  "TestResult.Status (step_of c) = (if call_passed c then ''OK'' else ''FAIL'')"
  by (cases c; simp add: step_of_def call_passed_def)+

lemma filter_passed_steps:
  "length (filter TestResult.Passed (map step_of cs)) = length (filter call_passed cs)"
  by (induction cs) (simp_all add: step_of_fields)

lemma single_call_Add: "single_call (Add_TestResult t p r d)"
  unfolding single_call_def using Add_TestResult_call by blast

lemma single_call_if:
  "single_call (\<lambda>s. if b then A s else B s) = ((b \<longrightarrow> single_call A) \<and> (\<not> b \<longrightarrow> single_call B))"
  by (cases b) (simp_all add: single_call_def)

lemma single_call_probe:
  "single_call (\<lambda>s. case p of Threw m \<Rightarrow> A m s | Got x \<Rightarrow> B x s)
     = ((\<forall>m. p = Threw m \<longrightarrow> single_call (A m)) \<and> (\<forall>x. p = Got x \<longrightarrow> single_call (B x)))"
  by (cases p) (simp_all add: single_call_def)

lemma single_call_option:
  "single_call (\<lambda>s. case p of None \<Rightarrow> A s | Some x \<Rightarrow> B x s)
     = ((p = None \<longrightarrow> single_call A) \<and> (\<forall>x. p = Some x \<longrightarrow> single_call (B x)))"
  by (cases p) (simp_all add: single_call_def)

lemmas single_call_simps = single_call_Add single_call_if single_call_probe single_call_option

lemma single_call_NonRootUser: "single_call (Test_NonRootUser f C)"
  by (simp add: Test_NonRootUser_def[abs_def] Let_def single_call_simps)

lemma single_call_Capabilities: "single_call (Test_Capabilities keys f C)"
  by (simp add: Test_Capabilities_def[abs_def] Let_def single_call_simps)

lemma single_call_SecurityOptions: "single_call (Test_SecurityOptions f C)"
  by (simp add: Test_SecurityOptions_def[abs_def] Let_def single_call_simps)

lemma single_call_ResourceLimits: "single_call (Test_ResourceLimits f C)"
  by (simp add: Test_ResourceLimits_def[abs_def] Let_def single_call_simps)

lemma single_call_ReadOnlyRootFS: "single_call (Test_ReadOnlyRootFS f C)"
  by (simp add: Test_ReadOnlyRootFS_def[abs_def] Let_def single_call_simps)

lemma single_call_MultiStage: "single_call (Test_MultiStageDetection f)"
  by (simp add: Test_MultiStageDetection_def[abs_def] Let_def single_call_simps)

lemma single_call_Alpine: "single_call (Test_AlpineBaseImage f)"
  by (simp add: Test_AlpineBaseImage_def[abs_def] Let_def single_call_simps)

lemma single_call_ImageSize: "single_call (Test_ImageSize f i)"
  by (simp add: Test_ImageSize_def[abs_def] Let_def single_call_simps)

lemma single_call_LayerCount: "single_call (Test_LayerCount f i)"
  by (simp add: Test_LayerCount_def[abs_def] Let_def single_call_simps)

subsection \<open>The runners as sequences of calls\<close>

lemma for_each_calls:
  assumes "\<forall>t. single_call (test t)"
  shows "\<exists>cs. length cs = length ts \<and> (\<forall>s. for_each test ts s = add_calls cs s)"
proof (induction ts rule: rev_induct)
  case Nil
  show ?case by (simp add: for_each_def add_calls_def)
next
  case (snoc t ts)
  then obtain cs where cs: "length cs = length ts" "\<forall>s. for_each test ts s = add_calls cs s"
    by blast
  from assms obtain c where c: "\<forall>s. test t s = (call_passed c, add_call s c)"
    unfolding single_call_def by blast
  have "\<forall>s. for_each test (ts @ [t]) s = add_calls (cs @ [c]) s"
    using cs c by (simp add: for_each_def add_calls_def)
  with cs show ?case by (metis length_append_singleton)
qed

lemma add_calls_append: "add_calls ds (add_calls cs s) = add_calls (cs @ ds) s"
  by (simp add: add_calls_def)

lemma ps_truthy_list_nonempty: "ps_truthy_list xs \<Longrightarrow> xs \<noteq> []"
  by (cases xs) simp_all

lemma security_main_Report:
  assumes "security_main keys Containers running facts = Report s pct code"
  defines "cl \<equiv> (if ps_truthy_list Containers then Containers else Get_ContainerList running)"
  shows "ps_truthy_list cl"
    and "s = for_each (\<lambda>c. Test_ReadOnlyRootFS (facts c) c) cl
              (for_each (\<lambda>c. Test_ResourceLimits (facts c) c) cl
                (for_each (\<lambda>c. Test_SecurityOptions (facts c) c) cl
                  (for_each (\<lambda>c. Test_Capabilities keys (facts c) c) cl
                    (for_each (\<lambda>c. Test_NonRootUser (facts c) c) cl (init_TestResults ''SECURITY'')))))"
    and "pct = totalPercentage s" and "code = category_exit s"
  using assms(1) unfolding security_main_def Let_def final_report_def cl_def
  by (simp_all split: if_splits)

lemma security_main_calls:
  assumes "security_main keys Containers running facts = Report s pct code"
  shows "\<exists>cs. cs \<noteq> [] \<and> s = add_calls cs (init_TestResults ''SECURITY'')"
proof -
  define cl where "cl = (if ps_truthy_list Containers then Containers else Get_ContainerList running)"
  note r = security_main_Report[OF assms, folded cl_def]
  have ne: "cl \<noteq> []" using r(1) by (rule ps_truthy_list_nonempty)
  have "\<exists>cs. length cs = length cl \<and>
          (\<forall>s. for_each (\<lambda>c. Test_NonRootUser (facts c) c) cl s = add_calls cs s)"
    by (rule for_each_calls[where test = "\<lambda>c. Test_NonRootUser (facts c) c"])
       (simp add: single_call_NonRootUser)
  then obtain c1 where c1: "length c1 = length cl"
      "\<And>s. for_each (\<lambda>c. Test_NonRootUser (facts c) c) cl s = add_calls c1 s"
    by (elim exE conjE) simp
  have "\<exists>cs. length cs = length cl \<and>
          (\<forall>s. for_each (\<lambda>c. Test_Capabilities keys (facts c) c) cl s = add_calls cs s)"
    by (rule for_each_calls[where test = "\<lambda>c. Test_Capabilities keys (facts c) c"])
       (simp add: single_call_Capabilities)
  then obtain c2 where c2:
      "\<And>s. for_each (\<lambda>c. Test_Capabilities keys (facts c) c) cl s = add_calls c2 s"
    by (elim exE conjE) simp
  have "\<exists>cs. length cs = length cl \<and>
          (\<forall>s. for_each (\<lambda>c. Test_SecurityOptions (facts c) c) cl s = add_calls cs s)"
    by (rule for_each_calls[where test = "\<lambda>c. Test_SecurityOptions (facts c) c"])
       (simp add: single_call_SecurityOptions)
  then obtain c3 where c3:
      "\<And>s. for_each (\<lambda>c. Test_SecurityOptions (facts c) c) cl s = add_calls c3 s"
    by (elim exE conjE) simp
  have "\<exists>cs. length cs = length cl \<and>
          (\<forall>s. for_each (\<lambda>c. Test_ResourceLimits (facts c) c) cl s = add_calls cs s)"
    by (rule for_each_calls[where test = "\<lambda>c. Test_ResourceLimits (facts c) c"])
       (simp add: single_call_ResourceLimits)
  then obtain c4 where c4:
      "\<And>s. for_each (\<lambda>c. Test_ResourceLimits (facts c) c) cl s = add_calls c4 s"
    by (elim exE conjE) simp
  have "\<exists>cs. length cs = length cl \<and>
          (\<forall>s. for_each (\<lambda>c. Test_ReadOnlyRootFS (facts c) c) cl s = add_calls cs s)"
    by (rule for_each_calls[where test = "\<lambda>c. Test_ReadOnlyRootFS (facts c) c"])
       (simp add: single_call_ReadOnlyRootFS)
  then obtain c5 where c5:
      "\<And>s. for_each (\<lambda>c. Test_ReadOnlyRootFS (facts c) c) cl s = add_calls c5 s"
    by (elim exE conjE) simp
  let ?cs = "c1 @ c2 @ c3 @ c4 @ c5"
  have "for_each (\<lambda>c. Test_ReadOnlyRootFS (facts c) c) cl
              (for_each (\<lambda>c. Test_ResourceLimits (facts c) c) cl
                (for_each (\<lambda>c. Test_SecurityOptions (facts c) c) cl
                  (for_each (\<lambda>c. Test_Capabilities keys (facts c) c) cl
                    (for_each (\<lambda>c. Test_NonRootUser (facts c) c) cl (init_TestResults ''SECURITY'')))))
        = add_calls ?cs (init_TestResults ''SECURITY'')"
    unfolding c1(2) c2 c3 c4 c5 add_calls_append append_assoc by (rule refl)
  with r(2) have 1: "s = add_calls ?cs (init_TestResults ''SECURITY'')" by (rule trans)
  have 2: "?cs \<noteq> []" using c1(1) ne by (cases c1) simp_all
  show ?thesis by (rule exI[of _ ?cs]) (rule conjI[OF 2 1])
qed


lemma multistage_main_Report:
  assumes "multistage_main Dockerfiles Images found listed dfacts ifacts = Report s pct code"
  defines "dl \<equiv> Get_DockerfileList Dockerfiles found"
  defines "il \<equiv> Get_ImageList Images listed"
  shows "ps_truthy_list dl"
    and "s = (if ps_truthy_list il \<and> 0 < length il
              then for_each (\<lambda>i. Test_LayerCount (ifacts i) i) il
                     (for_each (\<lambda>i. Test_ImageSize (ifacts i) i) il
                        (for_each (\<lambda>d. Test_AlpineBaseImage (dfacts d)) dl
                           (for_each (\<lambda>d. Test_MultiStageDetection (dfacts d)) dl
                              (init_TestResults ''MULTI-STAGE BUILD''))))
              else for_each (\<lambda>d. Test_AlpineBaseImage (dfacts d)) dl
                     (for_each (\<lambda>d. Test_MultiStageDetection (dfacts d)) dl
                        (init_TestResults ''MULTI-STAGE BUILD'')))"
    and "pct = totalPercentage s" and "code = category_exit s"
  using assms(1) unfolding multistage_main_def Let_def final_report_def dl_def il_def
  by (auto split: if_splits)

lemma multistage_main_calls:
  assumes "multistage_main Dockerfiles Images found listed dfacts ifacts = Report s pct code"
  shows "\<exists>cs. cs \<noteq> [] \<and> s = add_calls cs (init_TestResults ''MULTI-STAGE BUILD'')"
proof -
  define dl where "dl = Get_DockerfileList Dockerfiles found"
  define il where "il = Get_ImageList Images listed"
  note r = multistage_main_Report[OF assms, folded dl_def il_def]
  have ne: "dl \<noteq> []" using r(1) by (rule ps_truthy_list_nonempty)
  have "\<exists>cs. length cs = length dl \<and>
          (\<forall>s. for_each (\<lambda>d. Test_MultiStageDetection (dfacts d)) dl s = add_calls cs s)"
    by (rule for_each_calls[where test = "\<lambda>d. Test_MultiStageDetection (dfacts d)"])
       (simp add: single_call_MultiStage)
  then obtain c1 where c1: "length c1 = length dl"
      "\<And>s. for_each (\<lambda>d. Test_MultiStageDetection (dfacts d)) dl s = add_calls c1 s"
    by (elim exE conjE) simp
  have "\<exists>cs. length cs = length dl \<and>
          (\<forall>s. for_each (\<lambda>d. Test_AlpineBaseImage (dfacts d)) dl s = add_calls cs s)"
    by (rule for_each_calls[where test = "\<lambda>d. Test_AlpineBaseImage (dfacts d)"])
       (simp add: single_call_Alpine)
  then obtain c2 where c2:
      "\<And>s. for_each (\<lambda>d. Test_AlpineBaseImage (dfacts d)) dl s = add_calls c2 s"
    by (elim exE conjE) simp
  have "\<exists>cs. length cs = length il \<and>
          (\<forall>s. for_each (\<lambda>i. Test_ImageSize (ifacts i) i) il s = add_calls cs s)"
    by (rule for_each_calls[where test = "\<lambda>i. Test_ImageSize (ifacts i) i"])
       (simp add: single_call_ImageSize)
  then obtain c3 where c3:
      "\<And>s. for_each (\<lambda>i. Test_ImageSize (ifacts i) i) il s = add_calls c3 s"
    by (elim exE conjE) simp
  have "\<exists>cs. length cs = length il \<and>
          (\<forall>s. for_each (\<lambda>i. Test_LayerCount (ifacts i) i) il s = add_calls cs s)"
    by (rule for_each_calls[where test = "\<lambda>i. Test_LayerCount (ifacts i) i"])
       (simp add: single_call_LayerCount)
  then obtain c4 where c4:
      "\<And>s. for_each (\<lambda>i. Test_LayerCount (ifacts i) i) il s = add_calls c4 s"
    by (elim exE conjE) simp
  have 2: "c1 @ cs \<noteq> []" for cs using c1(1) ne by (cases c1) simp_all
  show ?thesis
  proof (cases "ps_truthy_list il \<and> 0 < length il")
    case True
    have "s = add_calls (c1 @ c2 @ c3 @ c4) (init_TestResults ''MULTI-STAGE BUILD'')"
      using r(2)[unfolded if_P[OF True]] unfolding c1(2) c2 c3 c4 add_calls_append append_assoc .
    with 2 show ?thesis by (intro exI conjI)
  next
    case False
    have "s = add_calls (c1 @ c2) (init_TestResults ''MULTI-STAGE BUILD'')"
      using r(2)[unfolded if_not_P[OF False]] unfolding c1(2) c2 add_calls_append .
    with 2 show ?thesis by (intro exI conjI)
  qed
qed

lemma reached_cases:
  assumes "s = add_calls cs (init_TestResults cat)
           \<or> security_main keys Containers running facts = Report s pct code
           \<or> multistage_main Dockerfiles Images found listed dfacts ifacts = Report s pct code"
  shows "\<exists>cs cat. s = add_calls cs (init_TestResults cat)"
  using assms security_main_calls multistage_main_calls by blast

section \<open>The FROM patterns on the lines of a text\<close>

lemma rx_prev_None: "anchor_free is \<Longrightarrow> rx is prev s = rx is None s"
proof (induction "is" prev s rule: rx.induct)
  case (7 p "is" prev c cs)
  then show ?case by (simp split: option.splits)
next
  case (11 p acc "is" prev c cs)
  then show ?case by (simp split: option.splits)
qed simp_all

lemma rx_prev: "anchor_free is \<Longrightarrow> rx is prev s = rx is prev' s"
  using rx_prev_None[of "is" prev s] rx_prev_None[of "is" prev' s] by simp









lemma rx_lit_ci:
  assumes "anchor_free is"
  shows "rx (lit_ci w @ is) prev s =
           (if length w \<le> length s \<and> map to_lower (take (length w) s) = map to_lower w
            then rx is None (drop (length w) s) else None)"
proof (induction w arbitrary: prev s)
  case Nil
  show ?case using rx_prev[OF assms] by (simp add: lit_ci_def)
next
  case (Cons a w)
  have l: "lit_ci (a # w) @ is = Ch (\<lambda>x. to_lower x = to_lower a) # (lit_ci w @ is)"
    by (simp add: lit_ci_def)
  show ?case
  proof (cases s)
    case Nil
    then show ?thesis unfolding l by simp
  next
    case (Cons c cs)
    then show ?thesis unfolding l using Cons.IH[of "Some c" cs] by auto
  qed
qed








































lemma rx_lit_end:
  "rx (lit_ci w) prev s \<noteq> None \<longleftrightarrow> length w \<le> length s \<and> map to_lower (take (length w) s) = map to_lower w"
  using rx_lit_ci[of "[]" w prev s] by simp

lemma rx_search_lit:
  "rx_search (lit_ci w) prev s \<longleftrightarrow> (\<exists>pre u post. s = pre @ u @ post \<and> map to_lower u = map to_lower w)"
proof (induction s arbitrary: prev)
  case Nil
  show ?case unfolding rx_search.simps(1) rx_lit_end by auto
next
  case (Cons c cs)
  show ?case
  proof
    assume "rx_search (lit_ci w) prev (c # cs)"
    then consider "rx (lit_ci w) prev (c # cs) \<noteq> None" | "rx_search (lit_ci w) (Some c) cs" by auto
    then show "\<exists>pre u post. c # cs = pre @ u @ post \<and> map to_lower u = map to_lower w"
    proof cases
      case 1
      then have "c # cs = [] @ take (length w) (c # cs) @ drop (length w) (c # cs)
                  \<and> map to_lower (take (length w) (c # cs)) = map to_lower w"
        unfolding rx_lit_end by simp
      then show ?thesis by blast
    next
      case 2
      then obtain pre u post where "cs = pre @ u @ post" "map to_lower u = map to_lower w"
        unfolding Cons.IH by blast
      then have "c # cs = (c # pre) @ u @ post \<and> map to_lower u = map to_lower w" by simp
      then show ?thesis by blast
    qed
  next
    assume "\<exists>pre u post. c # cs = pre @ u @ post \<and> map to_lower u = map to_lower w"
    then obtain pre u post where e: "c # cs = pre @ u @ post" and u: "map to_lower u = map to_lower w"
      by blast
    show "rx_search (lit_ci w) prev (c # cs)"
    proof (cases pre)
      case Nil
      from u have "length u = length w" by (metis length_map)
      with e Nil u have "length w \<le> length (c # cs) \<and> map to_lower (take (length w) (c # cs)) = map to_lower w"
        by (metis append_Nil append_eq_conv_conj length_append le_add1)
      then show ?thesis using rx_lit_end[of w prev "c # cs"] by simp
    next
      case (Cons a pre')
      with e have "cs = pre' @ u @ post" by simp
      with u have "rx_search (lit_ci w) (Some c) cs" unfolding Cons.IH by blast
      then show ?thesis by simp
    qed
  qed
qed

lemma ps_match_substring:
  "ps_match s w \<longleftrightarrow> (\<exists>pre u post. s = pre @ u @ post \<and> map to_lower u = map to_lower w)"
  unfolding ps_match_def by (rule rx_search_lit)

section \<open>Rounding to doubles\<close>

















section \<open>The accumulator invariant and the category score\<close>

lemma invariant_add_calls:
  assumes "s = add_calls cs (init_TestResults cat)"
  shows "TotalTests s = TestResults.Passed s + Failed s"
    and "TotalTests s = length (Steps s)"
    and "TestResults.Passed s = length (filter TestResult.Passed (Steps s))"
    and "\<forall>r \<in> set (Steps s). TestResult.Status r = (if TestResult.Passed r then ''OK'' else ''FAIL'')"
proof -
  have "length (filter call_passed cs) + length (filter (\<lambda>c. \<not> call_passed c) cs) = length cs"
    by (induction cs) simp_all
  then show "TotalTests s = TestResults.Passed s + Failed s"
    by (simp add: assms add_calls_fields init_TestResults_def)
  show "TotalTests s = length (Steps s)"
    by (simp add: assms add_calls_fields init_TestResults_def)
  show "TestResults.Passed s = length (filter TestResult.Passed (Steps s))"
    by (simp add: assms add_calls_fields init_TestResults_def filter_map comp_def step_of_fields)
  show "\<forall>r \<in> set (Steps s). TestResult.Status r = (if TestResult.Passed r then ''OK'' else ''FAIL'')"
    by (auto simp: assms add_calls_fields init_TestResults_def step_of_fields)
qed

text \<open>
  C10.  After any sequence of calls of Add-TestResult on the initial accumulator, and so in
  the accumulator of every report of the security and multi-stage runners, the number of
  tests equals passed plus failed and equals the number of recorded steps; every recorded
  step is a pass with status OK or a failure with status FAIL, so that the denominator of
  the score is the number of recorded checks.
\<close>

theorem accumulator_invariant:
  assumes "s = add_calls cs (init_TestResults cat)
           \<or> security_main keys Containers running facts = Report s pct code
           \<or> multistage_main Dockerfiles Images found listed dfacts ifacts = Report s pct code"
  shows "TotalTests s = TestResults.Passed s + Failed s
         \<and> TotalTests s = length (Steps s)
         \<and> (\<forall>r \<in> set (Steps s).
               (TestResult.Passed r \<and> TestResult.Status r = ''OK'')
               \<or> (\<not> TestResult.Passed r \<and> TestResult.Status r = ''FAIL''))"
proof -
  from reached_cases[OF assms] obtain cs' cat' where s: "s = add_calls cs' (init_TestResults cat')"
    by blast
  from invariant_add_calls[OF s] show ?thesis by auto
qed

theorem accumulator_invariant_witness:
  "TotalTests (add_calls sample_calls (init_TestResults ''SECURITY'')) = 10
   \<and> TestResults.Passed (add_calls sample_calls (init_TestResults ''SECURITY''))
       + Failed (add_calls sample_calls (init_TestResults ''SECURITY'')) = 10
   \<and> length (Steps (add_calls sample_calls (init_TestResults ''SECURITY''))) = 10"
proof -
  have t: "TotalTests (add_calls sample_calls (init_TestResults ''SECURITY'')) = 10"
    by (simp add: add_calls_fields init_TestResults_def sample_calls_def)
  from accumulator_invariant[of "add_calls sample_calls (init_TestResults ''SECURITY'')"
      sample_calls "''SECURITY''", OF disjI1, OF refl] t
  show ?thesis by simp
qed













section \<open>Dropped capabilities\<close>

lemma ps_eq_nonempty: "ps_eq x ''ALL'' \<Longrightarrow> x \<noteq> []"
  by (auto simp: ps_eq_def)

lemma ps_contains_truthy: "ps_contains xs ''ALL'' \<Longrightarrow> ps_truthy_list xs"
  by (cases xs rule: ps_truthy_list.cases) (auto simp: ps_contains_def ps_truthy_def ps_eq_nonempty)

lemma nonempty_names_truthy: "xs \<noteq> [] \<Longrightarrow> [] \<notin> set xs \<Longrightarrow> ps_truthy_list xs"
  by (cases xs rule: ps_truthy_list.cases) (auto simp: ps_truthy_def)

lemma Test_Capabilities_inspected:
  assumes "inspect f = Got (Some hc)" and "capsHex (CapEff f) = Got hex"
  shows "fst (Test_Capabilities keys f C s)
           = (ps_contains (CapDrop hc) ''ALL'' \<and> unexpectedCaps keys C (CapAdd hc) = [])"
    and "Steps (snd (Test_Capabilities keys f C s)) = Steps s @
           [\<lparr>Test = ''Capabilities: '' @ C,
             TestResult.Status = (if ps_contains (CapDrop hc) ''ALL'' \<and> unexpectedCaps keys C (CapAdd hc) = []
                                  then ''OK'' else ''FAIL''),
             TestResult.Passed = (ps_contains (CapDrop hc) ''ALL'' \<and> unexpectedCaps keys C (CapAdd hc) = []),
             Reason = (if \<not> ps_contains (CapDrop hc) ''ALL'' then ''Missing cap_drop: ALL''
                       else if unexpectedCaps keys C (CapAdd hc) \<noteq> []
                       then ''Unexpected capabilities: '' @ ps_join '', '' (unexpectedCaps keys C (CapAdd hc))
                       else if ps_truthy_list (CapAdd hc) \<and> CapAdd hc \<noteq> []
                       then ''Info: '' @ show_nat (length (CapAdd hc)) @ '' justified capabilities added''
                       else []),
             Details = [(''CapDrop'', DStr (ps_join '', '' (CapDrop hc))),
                        (''CapAdd'', DStr (if ps_truthy_list (CapAdd hc) then ps_join '', '' (CapAdd hc)
                                          else ''none'')),
                        (''Effective'', DStr hex)]\<rparr>]"
  using assms by (auto simp: Test_Capabilities_def Add_TestResult_def Let_def)

lemma Test_Capabilities_fails_without_ALL:
  assumes "inspect f = Got (Some hc)" and "\<not> ps_contains (CapDrop hc) ''ALL''"
  shows "fst (Test_Capabilities keys f C s) = False"
    and "TestResults.Passed (snd (Test_Capabilities keys f C s)) = TestResults.Passed s"
    and "Failed (snd (Test_Capabilities keys f C s)) = Failed s + 1"
  using assms
  by (cases "capsHex (CapEff f)"; simp add: Test_Capabilities_def Add_TestResult_def Let_def)+


lemma CapDrop_check_all:
  "ps_contains capDrop ''ALL'' \<Longrightarrow>
     CapDrop_check capDrop = (1, [(Green, ''CapDrop: ALL (all capabilities dropped)'')])"
  by (simp add: CapDrop_check_def ps_contains_truthy)

lemma CapDrop_check_partial:
  "capDrop \<noteq> [] \<Longrightarrow> [] \<notin> set capDrop \<Longrightarrow> \<not> ps_contains capDrop ''ALL'' \<Longrightarrow>
     CapDrop_check capDrop =
       (1 / 2, [(Yellow, ''CapDrop: '' @ ps_join '', '' capDrop),
                (Yellow, ''Recommendation: Use 'ALL' to drop all capabilities'')])"
  by (simp add: CapDrop_check_def nonempty_names_truthy)

lemma CapDrop_check_none: "fst (CapDrop_check []) = 0"
  by (simp add: CapDrop_check_def)

lemma Test_ContainerCapabilities_score:
  "ps_truthy (ContainerID sf) \<Longrightarrow> Inspect sf = Some hc \<Longrightarrow>
     score (Test_ContainerCapabilities sf sv) =
       fst (CapDrop_check (CapDrop hc)) + CapAdd_credit sv (CapAdd hc)
       + SecurityOpt_credit (SecurityOpt hc) + Privileged_credit (Privileged hc)
       + UsernsMode_credit (UsernsMode hc)
       + Limits_credit (Memory hc) (CpuQuota hc) (CpuPeriod hc)"
  by (simp add: Test_ContainerCapabilities_def Let_def)

text \<open>
  C1.  In the capabilities audit the check of the dropped capabilities adds a full point
  when the drop-list contains ALL, half a point with a warning (yellow lines naming the
  list and recommending ALL) when the list is not empty but lacks ALL, and nothing when the
  list is empty; the credit is one summand of the score of the service, whatever the
  add-list.  The capabilities check of the security audit has no partial credit: it passes
  exactly when the drop-list contains ALL and no added capability is unexpected, so it
  fails whenever the drop-list lacks ALL, empty or not and whatever the add-list, with the
  reason \<^verbatim>\<open>Missing cap_drop: ALL\<close>.  Names are compared as PowerShell compares them,
  without regard to letter case, and capability names are not empty.
\<close>

theorem capabilities_drop_credit:
  "(ps_contains capDrop ''ALL'' \<longrightarrow>
      CapDrop_check capDrop = (1, [(Green, ''CapDrop: ALL (all capabilities dropped)'')]))
   \<and> (capDrop \<noteq> [] \<and> [] \<notin> set capDrop \<and> \<not> ps_contains capDrop ''ALL'' \<longrightarrow>
        CapDrop_check capDrop =
          (1 / 2, [(Yellow, ''CapDrop: '' @ ps_join '', '' capDrop),
                   (Yellow, ''Recommendation: Use 'ALL' to drop all capabilities'')]))
   \<and> (capDrop = [] \<longrightarrow> fst (CapDrop_check capDrop) = 0)
   \<and> (ps_truthy (ContainerID sf) \<and> Inspect sf = Some hc \<longrightarrow>
        score (Test_ContainerCapabilities sf sv) =
          fst (CapDrop_check (CapDrop hc)) + CapAdd_credit sv (CapAdd hc)
          + SecurityOpt_credit (SecurityOpt hc) + Privileged_credit (Privileged hc)
          + UsernsMode_credit (UsernsMode hc)
          + Limits_credit (Memory hc) (CpuQuota hc) (CpuPeriod hc))
   \<and> (inspect f = Got (Some hc') \<and> \<not> ps_contains (CapDrop hc') ''ALL'' \<longrightarrow>
        \<not> fst (Test_Capabilities keys f C s)
        \<and> TestResults.Passed (snd (Test_Capabilities keys f C s)) = TestResults.Passed s
        \<and> Failed (snd (Test_Capabilities keys f C s)) = Failed s + 1)
   \<and> (inspect f = Got (Some hc') \<and> capsHex (CapEff f) = Got hex \<longrightarrow>
        fst (Test_Capabilities keys f C s)
          = (ps_contains (CapDrop hc') ''ALL'' \<and> unexpectedCaps keys C (CapAdd hc') = [])
        \<and> (\<not> ps_contains (CapDrop hc') ''ALL'' \<longrightarrow>
             Reason (last (Steps (snd (Test_Capabilities keys f C s)))) = ''Missing cap_drop: ALL''))"
proof (intro conjI impI)
  show "CapDrop_check capDrop = (1, [(Green, ''CapDrop: ALL (all capabilities dropped)'')])"
    if "ps_contains capDrop ''ALL''" using that by (rule CapDrop_check_all)
  show "CapDrop_check capDrop =
          (1 / 2, [(Yellow, ''CapDrop: '' @ ps_join '', '' capDrop),
                   (Yellow, ''Recommendation: Use 'ALL' to drop all capabilities'')])"
    if "capDrop \<noteq> [] \<and> [] \<notin> set capDrop \<and> \<not> ps_contains capDrop ''ALL''"
    using that by (simp add: CapDrop_check_partial)
  show "fst (CapDrop_check capDrop) = 0" if "capDrop = []"
    using that by (simp add: CapDrop_check_none)
  show "score (Test_ContainerCapabilities sf sv) =
          fst (CapDrop_check (CapDrop hc)) + CapAdd_credit sv (CapAdd hc)
          + SecurityOpt_credit (SecurityOpt hc) + Privileged_credit (Privileged hc)
          + UsernsMode_credit (UsernsMode hc)
          + Limits_credit (Memory hc) (CpuQuota hc) (CpuPeriod hc)"
    if "ps_truthy (ContainerID sf) \<and> Inspect sf = Some hc"
    using that by (simp add: Test_ContainerCapabilities_score)
next
  assume a: "inspect f = Got (Some hc') \<and> \<not> ps_contains (CapDrop hc') ''ALL''"
  then have i: "inspect f = Got (Some hc')" and n: "\<not> ps_contains (CapDrop hc') ''ALL''"
    by simp_all
  note r = Test_Capabilities_fails_without_ALL[OF i n, of keys C s]
  show "\<not> fst (Test_Capabilities keys f C s)" using r(1) by simp
  show "TestResults.Passed (snd (Test_Capabilities keys f C s)) = TestResults.Passed s"
    using r(2) .
  show "Failed (snd (Test_Capabilities keys f C s)) = Failed s + 1" using r(3) .
next
  assume a: "inspect f = Got (Some hc') \<and> capsHex (CapEff f) = Got hex"
  then have i: "inspect f = Got (Some hc')" and h: "capsHex (CapEff f) = Got hex"
    by simp_all
  note r = Test_Capabilities_inspected[OF i h, of keys C s]
  show "fst (Test_Capabilities keys f C s)
          = (ps_contains (CapDrop hc') ''ALL'' \<and> unexpectedCaps keys C (CapAdd hc') = [])"
    by (rule r(1))
  show "Reason (last (Steps (snd (Test_Capabilities keys f C s)))) = ''Missing cap_drop: ALL''"
    if "\<not> ps_contains (CapDrop hc') ''ALL''"
    unfolding r(2) using that by simp
qed

theorem capabilities_drop_credit_witness:
  "ps_contains [''ALL''] ''ALL''
   \<and> fst (CapDrop_check [''ALL'']) = 1
   \<and> \<not> ps_contains [''NET_RAW'', ''MKNOD''] ''ALL''
   \<and> CapDrop_check [''NET_RAW'', ''MKNOD''] =
        (1 / 2, [(Yellow, ''CapDrop: NET_RAW, MKNOD''),
                 (Yellow, ''Recommendation: Use 'ALL' to drop all capabilities'')])
   \<and> fst (CapDrop_check []) = 0
   \<and> inspect (sample_facts\<lparr>inspect := Got (Some (sample_HostConfig\<lparr>CapDrop := []\<rparr>))\<rparr>)
        = Got (Some (sample_HostConfig\<lparr>CapDrop := []\<rparr>))
   \<and> \<not> ps_contains (CapDrop (sample_HostConfig\<lparr>CapDrop := []\<rparr>)) ''ALL''
   \<and> \<not> fst (Test_Capabilities source_order
              (sample_facts\<lparr>inspect := Got (Some (sample_HostConfig\<lparr>CapDrop := []\<rparr>))\<rparr>)
              ''td_docker_2025-db-1'' (init_TestResults ''SECURITY''))"
proof -
  have a: "ps_contains [''ALL''] ''ALL''" by code_simp
  have b: "\<not> ps_contains [''NET_RAW'', ''MKNOD''] ''ALL''" by code_simp
  have c: "[''NET_RAW'', ''MKNOD''] \<noteq> [] \<and> [] \<notin> set [''NET_RAW'', ''MKNOD'']" by simp
  have d: "inspect (sample_facts\<lparr>inspect := Got (Some (sample_HostConfig\<lparr>CapDrop := []\<rparr>))\<rparr>)
             = Got (Some (sample_HostConfig\<lparr>CapDrop := []\<rparr>))
           \<and> \<not> ps_contains (CapDrop (sample_HostConfig\<lparr>CapDrop := []\<rparr>)) ''ALL''"
    by (simp add: ps_contains_def)
  have j: "ps_join '', '' [''NET_RAW'', ''MKNOD''] = ''NET_RAW, MKNOD''" by simp
  show ?thesis
    using capabilities_drop_credit[of "[''ALL'']"]
      capabilities_drop_credit[of "[''NET_RAW'', ''MKNOD'']"]
      capabilities_drop_credit[of "[]" _ _ _
        "sample_facts\<lparr>inspect := Got (Some (sample_HostConfig\<lparr>CapDrop := []\<rparr>))\<rparr>"
        "sample_HostConfig\<lparr>CapDrop := []\<rparr>" source_order "''td_docker_2025-db-1''"
        "init_TestResults ''SECURITY''"]
      a b c d j
    by simp
qed

text \<open>
  C1, where the claim fails.  In the security audit a container whose drop-list NET_RAW,
  MKNOD is not empty and lacks ALL, and whose added capabilities CHOWN and SETUID are both
  expected for a database, gets no half credit.  Its capabilities check is recorded as
  failed, with the reason \<^verbatim>\<open>Missing cap_drop: ALL\<close> and no warning; nothing is counted
  as passed, and the success rate over this one check is 0, as it is for an empty
  drop-list.
\<close>

theorem capabilities_drop_partial_list_fails:
  "CapDrop (sample_HostConfig\<lparr>CapDrop := [''NET_RAW'', ''MKNOD'']\<rparr>) \<noteq> []
   \<and> \<not> ps_contains (CapDrop (sample_HostConfig\<lparr>CapDrop := [''NET_RAW'', ''MKNOD'']\<rparr>)) ''ALL''
   \<and> unexpectedCaps source_order ''td_docker_2025-db-1'' (CapAdd sample_HostConfig) = []
   \<and> \<not> fst (Test_Capabilities source_order partial_drop_facts ''td_docker_2025-db-1''
              (init_TestResults ''SECURITY''))
   \<and> (let s = snd (Test_Capabilities source_order partial_drop_facts ''td_docker_2025-db-1''
                     (init_TestResults ''SECURITY''))
      in TotalTests s = 1 \<and> TestResults.Passed s = 0 \<and> Failed s = 1
         \<and> map TestResult.Status (Steps s) = [''FAIL'']
         \<and> map Reason (Steps s) = [''Missing cap_drop: ALL'']
         \<and> totalPercentage s = 0)
   \<and> totalPercentage (snd (Test_Capabilities source_order
         (sample_facts\<lparr>inspect := Got (Some (sample_HostConfig\<lparr>CapDrop := []\<rparr>))\<rparr>)
         ''td_docker_2025-db-1'' (init_TestResults ''SECURITY''))) = 0"
  by code_simp

section \<open>Added capabilities and the exception table\<close>

lemma find_SomeD: "find P xs = Some x \<Longrightarrow> P x \<and> x \<in> set xs"
  by (induction xs) (auto split: if_splits)

lemma key_order_set:
  "key_order keys \<Longrightarrow> set keys = {''db'', ''postgres'', ''api'', ''frontend'', ''nginx'', ''node''}"
  by (simp add: key_order_def expectedCaps_def)

lemma key_order_source: "key_order source_order"
  by (simp add: key_order_def source_order_def expectedCaps_def)

lemma containerType_matches:
  assumes "k \<in> set keys" and "ps_match C k"
  shows "containerType keys C \<in> set keys \<and> ps_match C (containerType keys C)"
proof -
  from assms have "find (\<lambda>type. ps_match C type) keys \<noteq> None"
    by (auto simp: find_None_iff)
  then obtain t where t: "find (\<lambda>type. ps_match C type) keys = Some t" by auto
  from find_SomeD[OF t] t show ?thesis by (simp add: containerType_def)
qed


lemma justified_CHOWN_SETUID:
  "ps_contains db_caps (normalizedCap ''CHOWN'')" "ps_contains db_caps (normalizedCap ''SETUID'')"
  by (code_simp, code_simp)

lemma api_matches:
  "ps_match ''api'' ''api''" "\<not> ps_match ''api'' ''db''" "\<not> ps_match ''api'' ''postgres''"
  "\<not> ps_match ''api'' ''frontend''" "\<not> ps_match ''api'' ''nginx''" "\<not> ps_match ''api'' ''node''"
  by (code_simp, code_simp, code_simp, code_simp, code_simp, code_simp)


lemma expected_db: "map_of expectedCaps ''db'' = Some db_caps"
  by (simp add: expectedCaps_def db_caps_def)

lemma expected_postgres: "map_of expectedCaps ''postgres'' = Some db_caps"
  by (simp add: expectedCaps_def db_caps_def)

lemma expected_api: "map_of expectedCaps ''api'' = Some []"
  by (simp add: expectedCaps_def)

lemma unexpectedCaps_database:
  assumes "containerType keys C = ''db'' \<or> containerType keys C = ''postgres''"
  shows "unexpectedCaps keys C [''CHOWN'', ''SETUID''] = []"
proof -
  have "unexpectedCaps keys C [''CHOWN'', ''SETUID'']
          = filter (\<lambda>cap. \<not> ps_contains db_caps (normalizedCap cap)) [''CHOWN'', ''SETUID'']"
    using assms
    by (elim disjE) (simp_all add: unexpectedCaps_def Let_def ps_truthy_def expected_db expected_postgres
        del: filter.simps)
  also have "\<dots> = []" using justified_CHOWN_SETUID by simp
  finally show ?thesis .
qed


lemma containerType_api:
  assumes "key_order keys"
  shows "containerType keys ''api'' = ''api''"
proof -
  note ks = key_order_set[OF assms]
  have "''api'' \<in> set keys" unfolding ks by simp
  from containerType_matches[OF this api_matches(1)]
  have m: "containerType keys ''api'' \<in> set keys" "ps_match ''api'' (containerType keys ''api'')"
    by simp_all
  from m(1) have "containerType keys ''api'' = ''db'' \<or> containerType keys ''api'' = ''postgres''
      \<or> containerType keys ''api'' = ''api'' \<or> containerType keys ''api'' = ''frontend''
      \<or> containerType keys ''api'' = ''nginx'' \<or> containerType keys ''api'' = ''node''"
    unfolding ks by blast
  with m(2) api_matches(2-) show ?thesis by metis
qed

lemma unexpectedCaps_api:
  assumes "key_order keys"
  shows "unexpectedCaps keys ''api'' [''CHOWN'', ''SETUID''] = [''CHOWN'', ''SETUID'']"
  by (simp add: unexpectedCaps_def Let_def ps_truthy_def containerType_api[OF assms] expected_api
      ps_contains_def)


lemma containerType_database:
  assumes "key_order keys" and "ps_match C ''db'' \<or> ps_match C ''postgres''"
    and "\<not> ps_match C ''api''" "\<not> ps_match C ''frontend''"
    and "\<not> ps_match C ''nginx''" "\<not> ps_match C ''node''"
  shows "containerType keys C = ''db'' \<or> containerType keys C = ''postgres''"
proof -
  note ks = key_order_set[OF assms(1)]
  have "''db'' \<in> set keys" "''postgres'' \<in> set keys" unfolding ks by simp_all
  with assms(2) containerType_matches[of _ keys C]
  have m: "containerType keys C \<in> set keys" "ps_match C (containerType keys C)"
    by blast+
  from m(1) have "containerType keys C = ''db'' \<or> containerType keys C = ''postgres''
      \<or> containerType keys C = ''api'' \<or> containerType keys C = ''frontend''
      \<or> containerType keys C = ''nginx'' \<or> containerType keys C = ''node''"
    unfolding ks by blast
  with m(2) assms(3-) show ?thesis by metis
qed

lemma containerType_source_order:
  assumes "ps_match C ''db'' \<or> ps_match C ''postgres''"
  shows "containerType source_order C = ''db'' \<or> containerType source_order C = ''postgres''"
proof (cases "ps_match C ''db''")
  case True
  then show ?thesis by (simp add: containerType_def source_order_def expectedCaps_def)
next
  case False
  with assms have "ps_match C ''postgres''" by simp
  with False show ?thesis by (simp add: containerType_def source_order_def expectedCaps_def)
qed


lemma unexpectedCaps_table:
  assumes "ps_truthy_list capAdd"
  shows "unexpectedCaps keys C capAdd =
           filter (\<lambda>cap. \<not> ps_contains (case map_of expectedCaps (containerType keys C) of
                                             None \<Rightarrow> [] | Some e \<Rightarrow> e) (normalizedCap cap)) capAdd"
proof (cases "containerType keys C = []")
  case True
  have "map_of expectedCaps [] = None" by (simp add: expectedCaps_def)
  with True assms show ?thesis by (simp add: unexpectedCaps_def Let_def ps_truthy_def)
next
  case False
  with assms show ?thesis by (simp add: unexpectedCaps_def Let_def ps_truthy_def)
qed

lemma show_nat_2: "show_nat (Suc (Suc 0)) = ''2''"
  by code_simp

lemma containerType_first:
  assumes "keys = pre @ k # post" and "ps_match C k" and "\<forall>k' \<in> set pre. \<not> ps_match C k'"
  shows "containerType keys C = k"
proof -
  have "find (\<lambda>type. ps_match C type) (pre @ k # post) = Some k"
    using assms(2,3) by (induction pre) simp_all
  then show ?thesis by (simp add: containerType_def assms(1))
qed

lemma containerType_cases:
  assumes "key_order keys"
  shows "containerType keys C = [] \<or> containerType keys C = ''db''
         \<or> containerType keys C = ''postgres'' \<or> containerType keys C = ''api''
         \<or> containerType keys C = ''frontend'' \<or> containerType keys C = ''nginx''
         \<or> containerType keys C = ''node''"
proof (cases "find (\<lambda>type. ps_match C type) keys")
  case None
  then show ?thesis by (simp add: containerType_def)
next
  case (Some t)
  from find_SomeD[OF Some] have "t \<in> set keys" by simp
  then have "t \<in> {''db'', ''postgres'', ''api'', ''frontend'', ''nginx'', ''node''}"
    unfolding key_order_set[OF assms] .
  moreover have "containerType keys C = t" using Some by (simp add: containerType_def)
  ultimately show ?thesis by blast
qed

lemma unexpectedCaps_other:
  assumes "key_order keys"
    and "containerType keys C \<noteq> ''db''" and "containerType keys C \<noteq> ''postgres''"
  shows "unexpectedCaps keys C [''CHOWN'', ''SETUID''] = [''CHOWN'', ''SETUID'']"
proof -
  from containerType_cases[OF assms(1), of C] assms(2,3)
  have "containerType keys C = [] \<or> containerType keys C = ''api''
         \<or> containerType keys C = ''frontend'' \<or> containerType keys C = ''nginx''
         \<or> containerType keys C = ''node''" by blast
  then show ?thesis
    by (elim disjE)
      (simp_all add: unexpectedCaps_def Let_def ps_truthy_def expectedCaps_def ps_contains_def)
qed

lemma ps_join_CHOWN_SETUID: "ps_join '', '' [''CHOWN'', ''SETUID''] = ''CHOWN, SETUID''"
  by code_simp

text \<open>
  C2.  For a container whose drop-list contains ALL and whose add-list is CHOWN, SETUID the
  capabilities check is decided by the entry of the exception table that the container
  name selects: the first key, in the order in which the keys of the table are
  enumerated, that occurs in the name, letter case ignored.  The check passes exactly
  when that key is db or postgres, whose entry holds both capabilities with the CAP_
  prefix supplied; with any other key, or none, it fails naming both capabilities.  A
  name that matches db or postgres and none of the other keys selects the database entry
  whatever the order, and the check passes; in the order in which the script writes the
  table every name that matches db or postgres selects it.  The container named api
  selects the empty api entry in every order, and the check fails.
\<close>

theorem capabilities_add_exceptions:
  assumes "inspect f = Got (Some hc)" and "capsHex (CapEff f) = Got hex"
    and "ps_contains (CapDrop hc) ''ALL''" and "CapAdd hc = [''CHOWN'', ''SETUID'']"
  shows "fst (Test_Capabilities keys f C s) =
           list_all (\<lambda>cap. ps_contains (case map_of expectedCaps (containerType keys C) of
                                           None \<Rightarrow> [] | Some e \<Rightarrow> e) (normalizedCap cap))
             (CapAdd hc)
         \<and> (key_order keys \<and> (ps_match C ''db'' \<or> ps_match C ''postgres'')
              \<and> \<not> ps_match C ''api'' \<and> \<not> ps_match C ''frontend''
              \<and> \<not> ps_match C ''nginx'' \<and> \<not> ps_match C ''node'' \<longrightarrow>
              fst (Test_Capabilities keys f C s)
              \<and> Reason (last (Steps (snd (Test_Capabilities keys f C s))))
                  = ''Info: 2 justified capabilities added'')
         \<and> (ps_match C ''db'' \<or> ps_match C ''postgres'' \<longrightarrow>
              fst (Test_Capabilities source_order f C s))
         \<and> (key_order keys \<longrightarrow>
              \<not> fst (Test_Capabilities keys f ''api'' s)
              \<and> Reason (last (Steps (snd (Test_Capabilities keys f ''api'' s))))
                  = ''Unexpected capabilities: CHOWN, SETUID'')
         \<and> (keys = pre @ k # post \<and> ps_match C k \<and> (\<forall>k' \<in> set pre. \<not> ps_match C k') \<longrightarrow>
              containerType keys C = k)
         \<and> (ps_match C k \<longleftrightarrow>
              (\<exists>a u b. C = a @ u @ b \<and> map to_lower u = map to_lower k))
         \<and> (key_order keys \<longrightarrow>
              fst (Test_Capabilities keys f C s)
                = (containerType keys C = ''db'' \<or> containerType keys C = ''postgres''))
         \<and> (key_order keys \<and> \<not> fst (Test_Capabilities keys f C s) \<longrightarrow>
              Reason (last (Steps (snd (Test_Capabilities keys f C s))))
                = ''Unexpected capabilities: CHOWN, SETUID'')"
proof (intro conjI impI)
  note r = Test_Capabilities_inspected[OF assms(1,2)]
  have t: "ps_truthy_list (CapAdd hc)" by (simp add: assms(4))
  show "fst (Test_Capabilities keys f C s) =
           list_all (\<lambda>cap. ps_contains (case map_of expectedCaps (containerType keys C) of
                                           None \<Rightarrow> [] | Some e \<Rightarrow> e) (normalizedCap cap))
             (CapAdd hc)"
    unfolding r(1) unexpectedCaps_table[OF t] using assms(3)
    by (simp add: filter_empty_conv list_all_iff)
  {
    assume a: "key_order keys \<and> (ps_match C ''db'' \<or> ps_match C ''postgres'')
              \<and> \<not> ps_match C ''api'' \<and> \<not> ps_match C ''frontend''
              \<and> \<not> ps_match C ''nginx'' \<and> \<not> ps_match C ''node''"
    then have "containerType keys C = ''db'' \<or> containerType keys C = ''postgres''"
      by (intro containerType_database) simp_all
    then have u: "unexpectedCaps keys C (CapAdd hc) = []"
      unfolding assms(4) by (rule unexpectedCaps_database)
    show "fst (Test_Capabilities keys f C s)" unfolding r(1) using u assms(3) by simp
    show "Reason (last (Steps (snd (Test_Capabilities keys f C s))))
            = ''Info: 2 justified capabilities added''"
      unfolding r(2) using u assms(3) by (simp add: assms(4) show_nat_2)
  }
  {
    assume "ps_match C ''db'' \<or> ps_match C ''postgres''"
    then have "containerType source_order C = ''db'' \<or> containerType source_order C = ''postgres''"
      by (rule containerType_source_order)
    then have "unexpectedCaps source_order C (CapAdd hc) = []"
      unfolding assms(4) by (rule unexpectedCaps_database)
    then show "fst (Test_Capabilities source_order f C s)"
      unfolding Test_Capabilities_inspected(1)[OF assms(1,2)] using assms(3) by simp
  }
  {
    assume k: "key_order keys"
    have u: "unexpectedCaps keys ''api'' (CapAdd hc) = [''CHOWN'', ''SETUID'']"
      unfolding assms(4) by (rule unexpectedCaps_api[OF k])
    show "\<not> fst (Test_Capabilities keys f ''api'' s)"
      unfolding Test_Capabilities_inspected(1)[OF assms(1,2)] using u by simp
    show "Reason (last (Steps (snd (Test_Capabilities keys f ''api'' s))))
            = ''Unexpected capabilities: CHOWN, SETUID''"
      unfolding Test_Capabilities_inspected(2)[OF assms(1,2)] using u assms(3) by simp
  }
  {
    assume "keys = pre @ k # post \<and> ps_match C k \<and> (\<forall>k' \<in> set pre. \<not> ps_match C k')"
    then show "containerType keys C = k" by (intro containerType_first[of keys pre k post]) simp_all
  }
  show "ps_match C k \<longleftrightarrow> (\<exists>a u b. C = a @ u @ b \<and> map to_lower u = map to_lower k)"
    by (rule ps_match_substring)
  {
    assume k: "key_order keys"
    show "fst (Test_Capabilities keys f C s)
            = (containerType keys C = ''db'' \<or> containerType keys C = ''postgres'')"
    proof (cases "containerType keys C = ''db'' \<or> containerType keys C = ''postgres''")
      case True
      then have "unexpectedCaps keys C (CapAdd hc) = []"
        unfolding assms(4) by (rule unexpectedCaps_database)
      with True assms(3) show ?thesis unfolding r(1) by simp
    next
      case False
      then have "unexpectedCaps keys C (CapAdd hc) = [''CHOWN'', ''SETUID'']"
        unfolding assms(4) by (intro unexpectedCaps_other[OF k]) simp_all
      with False show ?thesis unfolding r(1) by simp
    qed
  }
  {
    assume a: "key_order keys \<and> \<not> fst (Test_Capabilities keys f C s)"
    then have k: "key_order keys" and n: "\<not> fst (Test_Capabilities keys f C s)" by simp_all
    have "\<not> (containerType keys C = ''db'' \<or> containerType keys C = ''postgres'')"
    proof
      assume "containerType keys C = ''db'' \<or> containerType keys C = ''postgres''"
      then have "unexpectedCaps keys C (CapAdd hc) = []"
        unfolding assms(4) by (rule unexpectedCaps_database)
      with assms(3) n show False unfolding r(1) by simp
    qed
    then have u: "unexpectedCaps keys C (CapAdd hc) = [''CHOWN'', ''SETUID'']"
      unfolding assms(4) by (intro unexpectedCaps_other[OF k]) simp_all
    show "Reason (last (Steps (snd (Test_Capabilities keys f C s))))
            = ''Unexpected capabilities: CHOWN, SETUID''"
      unfolding r(2) using u assms(3) by (simp add: ps_join_CHOWN_SETUID)
  }
qed

lemma sample_capsHex: "capsHex (CapEff sample_facts) = Got ''00000000000004c3''"
  by code_simp

lemma db_container_matches:
  "ps_match ''td_docker_2025-db-1'' ''db''" "\<not> ps_match ''td_docker_2025-db-1'' ''api''"
  "\<not> ps_match ''td_docker_2025-db-1'' ''frontend''" "\<not> ps_match ''td_docker_2025-db-1'' ''nginx''"
  "\<not> ps_match ''td_docker_2025-db-1'' ''node''"
  by (code_simp, code_simp, code_simp, code_simp, code_simp)

lemma key_order_rev: "key_order (rev source_order)"
  using key_order_source by (simp add: key_order_def)

theorem capabilities_add_exceptions_witness:
  "inspect sample_facts = Got (Some sample_HostConfig)
   \<and> capsHex (CapEff sample_facts) = Got ''00000000000004c3''
   \<and> ps_contains (CapDrop sample_HostConfig) ''ALL''
   \<and> CapAdd sample_HostConfig = [''CHOWN'', ''SETUID'']
   \<and> key_order (rev source_order)
   \<and> ps_match ''td_docker_2025-db-1'' ''db''
   \<and> fst (Test_Capabilities (rev source_order) sample_facts ''td_docker_2025-db-1''
             (init_TestResults ''SECURITY''))
   \<and> \<not> fst (Test_Capabilities (rev source_order) sample_facts ''api'' (init_TestResults ''SECURITY''))"
proof -
  have a: "inspect sample_facts = Got (Some sample_HostConfig)" by (simp add: sample_facts_def)
  have c: "ps_contains (CapDrop sample_HostConfig) ''ALL''"
    by (simp add: sample_HostConfig_def ps_contains_def ps_eq_def)
  have d: "CapAdd sample_HostConfig = [''CHOWN'', ''SETUID'']" by (simp add: sample_HostConfig_def)
  note t = capabilities_add_exceptions[OF a sample_capsHex c d, of "rev source_order"
      "''td_docker_2025-db-1''" "init_TestResults ''SECURITY''"]
  from t[THEN conjunct2, THEN conjunct1] key_order_rev db_container_matches
  have p: "fst (Test_Capabilities (rev source_order) sample_facts ''td_docker_2025-db-1''
             (init_TestResults ''SECURITY''))" by blast
  from t[THEN conjunct2, THEN conjunct2, THEN conjunct2] key_order_rev
  have q: "\<not> fst (Test_Capabilities (rev source_order) sample_facts ''api''
             (init_TestResults ''SECURITY''))" by blast
  from a sample_capsHex c d key_order_rev db_container_matches(1) p q
  show ?thesis by (intro conjI)
qed

text \<open>
  C2, where the claim fails.  The container api-db-sync matches db, its drop-list is ALL
  and its add-list is CHOWN, SETUID.  When the keys of the table are enumerated with api
  before db the name selects the empty api entry and the check fails naming both
  capabilities; in the order in which the script writes the table the same container
  passes.
\<close>

theorem capabilities_add_depends_on_key_order:
  "key_order api_first
   \<and> ps_match ''api-db-sync'' ''db''
   \<and> containerType api_first ''api-db-sync'' = ''api''
   \<and> \<not> fst (Test_Capabilities api_first sample_facts ''api-db-sync'' (init_TestResults ''SECURITY''))
   \<and> Reason (last (Steps (snd (Test_Capabilities api_first sample_facts ''api-db-sync''
                                   (init_TestResults ''SECURITY'')))))
       = ''Unexpected capabilities: CHOWN, SETUID''
   \<and> containerType source_order ''api-db-sync'' = ''db''
   \<and> fst (Test_Capabilities source_order sample_facts ''api-db-sync'' (init_TestResults ''SECURITY''))"
proof -
  have 1: "key_order api_first"
    by (auto simp: key_order_def api_first_def expectedCaps_def)
  have 2: "ps_match ''api-db-sync'' ''db''" by code_simp
  have 3: "containerType api_first ''api-db-sync'' = ''api''" by code_simp
  have 4: "\<not> fst (Test_Capabilities api_first sample_facts ''api-db-sync''
                    (init_TestResults ''SECURITY''))" by code_simp
  have 5: "Reason (last (Steps (snd (Test_Capabilities api_first sample_facts ''api-db-sync''
                                   (init_TestResults ''SECURITY'')))))
       = ''Unexpected capabilities: CHOWN, SETUID''" by code_simp
  have 6: "containerType source_order ''api-db-sync'' = ''db''" by code_simp
  have 7: "fst (Test_Capabilities source_order sample_facts ''api-db-sync''
                 (init_TestResults ''SECURITY''))" by code_simp
  from 1 2 3 4 5 6 7 show ?thesis by (intro conjI)
qed

section \<open>Readiness\<close>

lemma ready_ok: "ready QueryOk now =
   \<lparr>status = 200, body = [(''ready'', JBool True), (''database'', JString ''healthy''),
                          (''timestamp'', JString now)]\<rparr>"
  by (simp add: ready_def checkDatabaseHealth_def healthCheck_def)

lemma ready_failed: "ready (QueryError msg) now =
   \<lparr>status = 503, body = [(''ready'', JBool False), (''database'', JString ''unhealthy''),
                          (''timestamp'', JString now)]\<rparr>"
  by (simp add: ready_def checkDatabaseHealth_def healthCheck_def)

text \<open>
  C9.  GET /ready answers with status 200 and the body fields ready true and database
  healthy exactly when the health probe of the database succeeds; when the probe fails,
  whatever the error, it answers with status 503, ready false and database unhealthy.
\<close>

theorem ready_endpoint:
  "((status (ready q now) = 200
      \<and> map_of (body (ready q now)) ''ready'' = Some (JBool True)
      \<and> map_of (body (ready q now)) ''database'' = Some (JString ''healthy''))
     = (healthCheck q))
   \<and> (\<not> healthCheck q \<longrightarrow>
        status (ready q now) = 503
        \<and> map_of (body (ready q now)) ''ready'' = Some (JBool False)
        \<and> map_of (body (ready q now)) ''database'' = Some (JString ''unhealthy''))
   \<and> (healthCheck q = (q = QueryOk))"
  by (cases q) (simp_all add: ready_ok ready_failed healthCheck_def)

theorem ready_endpoint_witness:
  "\<not> healthCheck (QueryError ''connect ECONNREFUSED'')
   \<and> status (ready (QueryError ''connect ECONNREFUSED'') ''2025-01-01T00:00:00.000Z'') = 503
   \<and> map_of (body (ready (QueryError ''connect ECONNREFUSED'') ''2025-01-01T00:00:00.000Z'')) ''ready''
        = Some (JBool False)
   \<and> healthCheck QueryOk
   \<and> status (ready QueryOk ''2025-01-01T00:00:00.000Z'') = 200"
proof -
  have a: "\<not> healthCheck (QueryError ''connect ECONNREFUSED'')" by (simp add: healthCheck_def)
  have b: "healthCheck QueryOk" by (simp add: healthCheck_def)
  from ready_endpoint[of "QueryError ''connect ECONNREFUSED''" "''2025-01-01T00:00:00.000Z''"]
    ready_endpoint[of QueryOk "''2025-01-01T00:00:00.000Z''"] a b
  show ?thesis by blast
qed

section \<open>Runs without targets\<close>

lemma Test_ContainerCapabilities_absent:
  "\<not> ps_truthy (ContainerID sf) \<Longrightarrow>
     Test_ContainerCapabilities sf sv = \<lparr>service = sv, score = 0, maxScore = 0, percentage = 0\<rparr>"
  by (simp add: Test_ContainerCapabilities_def)

text \<open>
  C5.  When no container is resolved the security runner, and when no Dockerfile is
  resolved the multi-stage runner, stops before any check with exit code 1 and prints no
  report; whenever one of them does print a report, at least one check is recorded, so no
  report is over zero checks.  The capabilities audit has no such stop: when none of its
  three services is found it goes on to its global report, whose total is 0 out of 0 with
  0%, and exits with status 2.
\<close>

theorem zero_targets_hard_failure:
  "((if ps_truthy_list Containers then Containers else Get_ContainerList running) = [] \<longrightarrow>
      security_main keys Containers running facts = HardFailure ''No running containers found'' 1
      \<and> exit_code (security_main keys Containers running facts) \<noteq> 0)
   \<and> (Get_DockerfileList Dockerfiles found = [] \<longrightarrow>
        multistage_main Dockerfiles Images found listed dfacts ifacts
          = HardFailure ''No Dockerfiles found'' 1
        \<and> exit_code (multistage_main Dockerfiles Images found listed dfacts ifacts) \<noteq> 0)
   \<and> (security_main keys Containers running facts = Report s pct code \<longrightarrow> Steps s \<noteq> [])
   \<and> (multistage_main Dockerfiles Images found listed dfacts ifacts = Report s' pct' code' \<longrightarrow>
        Steps s' \<noteq> [])
   \<and> ((\<forall>sv \<in> set [''api'', ''frontend'', ''db'']. \<not> ps_truthy (ContainerID (sfacts sv))) \<longrightarrow>
        caps_main sfacts
          = \<lparr>TotalScore = 0, TotalMaxScore = 0, GlobalPercentage = 0, ExitStatus = 2\<rparr>)"
proof (intro conjI impI)
  assume a: "(if ps_truthy_list Containers then Containers else Get_ContainerList running) = []"
  then show 1: "security_main keys Containers running facts
                  = HardFailure ''No running containers found'' 1"
    unfolding security_main_def Let_def by (simp only: a ps_truthy_list.simps) simp
  show "exit_code (security_main keys Containers running facts) \<noteq> 0"
    unfolding 1 by (simp add: exit_code_def)
next
  assume a: "Get_DockerfileList Dockerfiles found = []"
  then show 1: "multistage_main Dockerfiles Images found listed dfacts ifacts
                  = HardFailure ''No Dockerfiles found'' 1"
    unfolding multistage_main_def Let_def by (simp only: a ps_truthy_list.simps) simp
  show "exit_code (multistage_main Dockerfiles Images found listed dfacts ifacts) \<noteq> 0"
    unfolding 1 by (simp add: exit_code_def)
next
  assume "security_main keys Containers running facts = Report s pct code"
  from security_main_calls[OF this] obtain cs where "cs \<noteq> []"
    "s = add_calls cs (init_TestResults ''SECURITY'')" by blast
  then show "Steps s \<noteq> []" by (simp add: add_calls_fields)
next
  assume "multistage_main Dockerfiles Images found listed dfacts ifacts = Report s' pct' code'"
  from multistage_main_calls[OF this] obtain cs where "cs \<noteq> []"
    "s' = add_calls cs (init_TestResults ''MULTI-STAGE BUILD'')" by blast
  then show "Steps s' \<noteq> []" by (simp add: add_calls_fields)
next
  assume "\<forall>sv \<in> set [''api'', ''frontend'', ''db'']. \<not> ps_truthy (ContainerID (sfacts sv))"
  then have "\<not> ps_truthy (ContainerID (sfacts ''api''))"
    "\<not> ps_truthy (ContainerID (sfacts ''frontend''))"
    "\<not> ps_truthy (ContainerID (sfacts ''db''))" by simp_all
  then show "caps_main sfacts
               = \<lparr>TotalScore = 0, TotalMaxScore = 0, GlobalPercentage = 0, ExitStatus = 2\<rparr>"
    by (simp add: caps_main_def Test_ContainerCapabilities_absent)
qed

theorem zero_targets_hard_failure_witness:
  "(if ps_truthy_list [] then [] else Get_ContainerList []) = []
   \<and> security_main source_order [] [] (\<lambda>c. sample_facts) = HardFailure ''No running containers found'' 1
   \<and> Get_DockerfileList [] [] = []
   \<and> exit_code (multistage_main [] [] [] [] (\<lambda>d. dockerfile_in ''api'' single_stage_dockerfile)
                   (\<lambda>i. \<lparr>Size = Got None, history = Got []\<rparr>)) \<noteq> 0
   \<and> list_all (\<lambda>sv. \<not> ps_truthy (ContainerID (no_service sv))) [''api'', ''frontend'', ''db'']
   \<and> ExitStatus (caps_main no_service) = 2"
proof -
  have a: "(if ps_truthy_list [] then [] else Get_ContainerList []) = []"
    by (simp add: Get_ContainerList_def)
  have b: "Get_DockerfileList [] [] = []" by (simp add: Get_DockerfileList_def)
  have c: "\<forall>sv \<in> set [''api'', ''frontend'', ''db'']. \<not> ps_truthy (ContainerID (no_service sv))"
    by (simp add: no_service_def ps_truthy_def)
  have d: "list_all (\<lambda>sv. \<not> ps_truthy (ContainerID (no_service sv))) [''api'', ''frontend'', ''db'']"
    by (simp add: no_service_def ps_truthy_def)
  from zero_targets_hard_failure[of "[]" "[]" source_order "\<lambda>c. sample_facts" "[]" "[]" "[]" "[]"
      "\<lambda>d. dockerfile_in ''api'' single_stage_dockerfile" "\<lambda>i. \<lparr>Size = Got None, history = Got []\<rparr>"
      _ _ _ _ _ _ no_service]
    a b c d
  show ?thesis by (simp add: exit_code_def)
qed

text \<open>
  C5, where the claim fails.  With no container running, the capabilities audit finds none
  of its services.  It does not stop: each service yields a result without a maximum, the
  totals are 0 and 0, the percentage is set to 0 by the guard on the denominator, the
  report prints \<^verbatim>\<open>Score total: 0/0 (0%)\<close>, and the exit status is 2.
\<close>

theorem capabilities_audit_reports_zero_of_zero:
  "map (\<lambda>sv. ps_truthy (ContainerID (no_service sv))) [''api'', ''frontend'', ''db'']
     = [False, False, False]
   \<and> map (\<lambda>sv. Test_ContainerCapabilities (no_service sv) sv) [''api'', ''frontend'', ''db'']
     = [\<lparr>service = ''api'', score = 0, maxScore = 0, percentage = 0\<rparr>,
        \<lparr>service = ''frontend'', score = 0, maxScore = 0, percentage = 0\<rparr>,
        \<lparr>service = ''db'', score = 0, maxScore = 0, percentage = 0\<rparr>]
   \<and> TotalScore (caps_main no_service) = 0
   \<and> TotalMaxScore (caps_main no_service) = 0
   \<and> GlobalPercentage (caps_main no_service) = 0
   \<and> ExitStatus (caps_main no_service) = 2"
  by (simp add: caps_main_def Test_ContainerCapabilities_def no_service_def ps_truthy_def)

section \<open>The loop of the aggregator\<close>

lemma run_tests_acc_False: "run_tests False env files R = R @ run_tests False env files []"
proof (induction files arbitrary: R)
  case Nil
  show ?case by simp
next
  case (Cons t files)
  show ?case
    by (cases "env t")
       (simp_all add: Cons.IH[of "R @ [x]" for x] Cons.IH[of "[x]" for x] Let_def)
qed

lemma run_tests_acc_True: "run_tests True env files R = R @ run_tests True env files []"
proof (induction files arbitrary: R)
  case Nil
  show ?case by simp
next
  case (Cons t files)
  show ?case
    by (cases "env t")
       (simp_all add: Cons.IH[of "R @ [x]" for x] Cons.IH[of "[x]" for x] Let_def)
qed

lemma run_tests_acc: "run_tests stop env files R = R @ run_tests stop env files []"
  by (cases stop) (auto intro: run_tests_acc_True run_tests_acc_False)

lemma run_tests_step_False:
  "run_tests False env (t # rest) [] = suite_entry env t # run_tests False env rest []"
  by (cases "env t")
     (simp_all add: suite_entry_def Let_def run_tests_acc_False[of _ _ "[x]" for x])

lemma run_tests_step_True:
  "run_tests True env (t # rest) [] =
     (if failed_run env t then [suite_entry env t]
      else suite_entry env t # run_tests True env rest [])"
  by (cases "env t")
     (simp_all add: suite_entry_def failed_run_def Let_def run_tests_acc_True[of _ _ "[x]" for x])

lemma run_tests_no_stop: "run_tests False env files [] = map (suite_entry env) files"
  by (induction files) (simp_all add: run_tests_step_False del: run_tests.simps(2))

lemma run_tests_stop:
  "run_tests True env files [] =
     map (suite_entry env) (takeWhile (\<lambda>t. \<not> failed_run env t) files
                            @ take 1 (dropWhile (\<lambda>t. \<not> failed_run env t) files))"
  by (induction files) (simp_all add: run_tests_step_True del: run_tests.simps(2))

lemma suite_entry_missing:
  "env t = FileNotFound \<Longrightarrow>
     suite_entry env t = \<lparr>Name = TestConfig.Name t, Passed = False,
                           Status = ''FILE NOT FOUND'', ExitCode = - 1\<rparr>"
  by (simp add: suite_entry_def)

lemma suite_entry_passed: "SuiteResult.Passed (suite_entry env t) = (env t = Exited 0)"
  by (cases "env t") (simp_all add: suite_entry_def)

text \<open>
  C6.  A test file that is missing is recorded as failed with status FILE NOT FOUND and
  exit code -1, and without stop-on-failure every configured file has its entry, in
  order.  A script that ran and failed (nonzero exit code, or an error raised) is
  recorded as failed, and under stop-on-failure nothing after it is run.  The branch for
  a missing file, unlike the branches for these two failures, ends in \<^verbatim>\<open>continue\<close> and
  never tests the switch: under stop-on-failure the loop goes on after a missing file,
  and the entries are those of the files up to and including the first script that ran
  and failed.
\<close>

theorem missing_file_and_stop_on_failure:
  "(env t = FileNotFound \<longrightarrow>
      run_tests stop env (t # rest) R =
        run_tests stop env rest
          (R @ [\<lparr>Name = TestConfig.Name t, Passed = False,
                  Status = ''FILE NOT FOUND'', ExitCode = - 1\<rparr>]))
   \<and> (failed_run env t \<longrightarrow>
        run_tests True env (t # rest) R = R @ [suite_entry env t]
        \<and> \<not> SuiteResult.Passed (suite_entry env t)
        \<and> run_tests False env (t # rest) R = run_tests False env rest (R @ [suite_entry env t]))
   \<and> run_tests False env files [] = map (suite_entry env) files
   \<and> run_tests True env files [] =
        map (suite_entry env) (takeWhile (\<lambda>t. \<not> failed_run env t) files
                               @ take 1 (dropWhile (\<lambda>t. \<not> failed_run env t) files))"
proof (intro conjI impI)
  show "run_tests stop env (t # rest) R =
        run_tests stop env rest
          (R @ [\<lparr>Name = TestConfig.Name t, Passed = False,
                  Status = ''FILE NOT FOUND'', ExitCode = - 1\<rparr>])"
    if "env t = FileNotFound" using that by simp
  show "run_tests False env files [] = map (suite_entry env) files"
    by (rule run_tests_no_stop)
  show "run_tests True env files [] =
        map (suite_entry env) (takeWhile (\<lambda>t. \<not> failed_run env t) files
                               @ take 1 (dropWhile (\<lambda>t. \<not> failed_run env t) files))"
    by (rule run_tests_stop)
next
  assume f: "failed_run env t"
  show "run_tests True env (t # rest) R = R @ [suite_entry env t]"
    using f by (subst run_tests_acc) (simp add: run_tests_step_True del: run_tests.simps(2))
  show "\<not> SuiteResult.Passed (suite_entry env t)"
    using f by (cases "env t") (simp_all add: suite_entry_def failed_run_def)
  show "run_tests False env (t # rest) R = run_tests False env rest (R @ [suite_entry env t])"
    by (subst run_tests_acc, subst (2) run_tests_acc) (simp add: run_tests_step_False del: run_tests.simps(2))
qed

theorem missing_file_and_stop_on_failure_witness:
  "one_pass_two_missing (TestFiles ! 1) = FileNotFound
   \<and> failed_run one_pass_two_missing (TestFiles ! 3)
   \<and> map SuiteResult.Status (run_tests True one_pass_two_missing TestFiles [])
       = [''PASSED'', ''FILE NOT FOUND'', ''FILE NOT FOUND'', ''FAILED (Exit: 1)'']
   \<and> length (run_tests False one_pass_two_missing TestFiles []) = 8"
proof -
  have a: "one_pass_two_missing (TestFiles ! 1) = FileNotFound"
    by (simp add: one_pass_two_missing_def TestFiles_def)
  have b: "failed_run one_pass_two_missing (TestFiles ! 3)"
    by (simp add: failed_run_def one_pass_two_missing_def TestFiles_def)
  have c: "map SuiteResult.Status
             (map (suite_entry one_pass_two_missing)
                (takeWhile (\<lambda>t. \<not> failed_run one_pass_two_missing t) TestFiles
                 @ take 1 (dropWhile (\<lambda>t. \<not> failed_run one_pass_two_missing t) TestFiles)))
           = [''PASSED'', ''FILE NOT FOUND'', ''FILE NOT FOUND'', ''FAILED (Exit: 1)'']"
    by code_simp
  have d: "length (map (suite_entry one_pass_two_missing) TestFiles) = 8"
    by (simp add: TestFiles_def)
  from missing_file_and_stop_on_failure[of one_pass_two_missing "TestFiles ! 1" True "[]" "[]" TestFiles]
    a b c d
  show ?thesis by simp
qed

text \<open>
  C6, the run on which the aggregator departs from the claim.  Under stop-on-failure, with
  the first of the eight test files missing and every other script exiting with 0, the
  first entry is the failure FILE NOT FOUND and the seven remaining scripts are all run:
  the entries are those of a run without the switch, where a run that stops on the first
  failure has one entry.
\<close>

theorem missing_file_does_not_stop_the_run:
  "first_missing (TestFiles ! 0) = FileNotFound
   \<and> map SuiteResult.Status (run_tests True first_missing TestFiles [])
       = [''FILE NOT FOUND'', ''PASSED'', ''PASSED'', ''PASSED'', ''PASSED'', ''PASSED'',
          ''PASSED'', ''PASSED'']
   \<and> map SuiteResult.ExitCode (run_tests True first_missing TestFiles [])
       = [- 1, 0, 0, 0, 0, 0, 0, 0]
   \<and> run_tests True first_missing TestFiles [] = run_tests False first_missing TestFiles []"
  by code_simp

section \<open>The global score\<close>

lemma list_cases3 [case_names none one more]:
  assumes "xs = [] \<Longrightarrow> P" and "\<And>x. xs = [x] \<Longrightarrow> P"
    and "\<And>x y zs. xs = x # y # zs \<Longrightarrow> P"
  shows P
proof (cases xs)
  case Nil
  then show ?thesis by (rule assms(1))
next
  case (Cons x ys)
  then show ?thesis by (cases ys) (auto intro: assms(2,3))
qed

lemma where_Count_zero:
  "where_Count P result_entries xs = 0 \<longleftrightarrow> filter P xs = []"
  by (cases "filter P xs" rule: list_cases3)
     (simp_all add: where_Count_def result_entries_def)

lemma suite_exit_zero: "suite_exit Results = 0 \<longleftrightarrow> (\<forall>r \<in> set Results. SuiteResult.Passed r)"
  by (simp add: suite_exit_def Let_def where_Count_zero filter_empty_conv)

lemma where_Count_not_single:
  "length (filter P xs) \<noteq> 1 \<Longrightarrow> where_Count P entries xs = length (filter P xs)"
  by (cases "filter P xs" rule: list_cases3) (simp_all add: where_Count_def)

lemma where_Count_single:
  "length (filter P xs) = 1 \<Longrightarrow> where_Count P result_entries xs = 4"
  by (cases "filter P xs" rule: list_cases3)
     (simp_all add: where_Count_def result_entries_def)

lemma global_score_not_single:
  assumes "length (filter SuiteResult.Passed Results) \<noteq> 1"
  shows "global_score (Write_TestSummary Results) =
           (if \<forall>r \<in> set Results. SuiteResult.Passed r then 100
            else ps_round (fl (fl (of_nat (length (filter SuiteResult.Passed Results))
                                   / of_nat (length Results)) * 100)) 1)"
proof -
  have "length (filter SuiteResult.Passed Results) = length Results
          \<longleftrightarrow> (\<forall>r \<in> set Results. SuiteResult.Passed r)"
    by (metis filter_True length_filter_less less_irrefl_nat)
  then show ?thesis
    by (simp add: Write_TestSummary_def Let_def where_Count_not_single[OF assms])
qed

lemma five_of_six:
  "global_score (fst (snd (suite_main False one_of_six_fails six_files))) = fl (833 / 10)"
  by code_simp

lemma single_pass_results:
  "map SuiteResult.Passed (fst (suite_main False only_first_passes TestFiles))
     = [True, False, False, False, False, False, False, False]"
  by code_simp

lemma single_pass_score:
  "passedTests (fst (snd (suite_main False only_first_passes TestFiles))) = 4"
  "global_score (fst (snd (suite_main False only_first_passes TestFiles))) = 50"
  "snd (snd (suite_main False only_first_passes TestFiles)) = 1"
  by (code_simp, code_simp, code_simp)

lemma intended_score: "ps_round (1 / 8 * 100) 1 = 25 / 2"
  by code_simp

lemma stopped_run:
  "map SuiteResult.Passed (fst (suite_main True one_pass_two_missing TestFiles))
     = [True, False, False, False]"
  "global_score (fst (snd (suite_main True one_pass_two_missing TestFiles))) = 100"
  "snd (snd (suite_main True one_pass_two_missing TestFiles)) = 1"
  by (code_simp, code_simp, code_simp)


text \<open>
  C4 (evaluation).  The aggregator counts the passed categories with the Count property
  of a pipeline result.  With eight categories of which only the first passes, the single
  matching result is a hashtable of four entries, so the count is 4 and the global score
  is 50 where one passed category out of eight is 12.5.  Under stop-on-failure, when the
  first category passes, the next two files are missing and the fourth script fails, four
  results are recorded, the count of passed ones is again 4, and the global score is 100
  although three categories failed and the exit code is 1.
\<close>

theorem global_score_single_pass:
  "map SuiteResult.Passed (fst (suite_main False only_first_passes TestFiles))
     = [True, False, False, False, False, False, False, False]
   \<and> passedTests (fst (snd (suite_main False only_first_passes TestFiles))) = 4
   \<and> global_score (fst (snd (suite_main False only_first_passes TestFiles))) = 50
   \<and> ps_round (1 / 8 * 100) 1 = 25 / 2
   \<and> map SuiteResult.Passed (fst (suite_main True one_pass_two_missing TestFiles))
       = [True, False, False, False]
   \<and> global_score (fst (snd (suite_main True one_pass_two_missing TestFiles))) = 100
   \<and> snd (snd (suite_main True one_pass_two_missing TestFiles)) = 1"
  using single_pass_results single_pass_score intended_score stopped_run by (intro conjI)

theorem global_score_single_pass_witness:
  "global_score (fst (snd (suite_main False only_first_passes TestFiles)))
     \<noteq> ps_round (1 / 8 * 100) 1"
  using global_score_single_pass by simp

section \<open>Multi-stage detection\<close>













section \<open>Alpine base image\<close>








end
